theory Spec2Isabelle
  imports Complex_Main "HOL-Library.Multiset"
begin

section \<open>Python values used by the cross-validation routines\<close>

text \<open>
  The module \<^verbatim>\<open>ionyx/experiment/cross_validation.py\<close> is Python 2 code: it imports
  \<^verbatim>\<open>sklearn.cross_validation\<close>, and \<^verbatim>\<open>train_count / n_folds\<close> on two integers is
  floor division, whose result is used as a slice bound. Python integers are \<open>int\<close>;
  floor division is \<open>div\<close> on \<open>int\<close>, and a zero divisor raises.
\<close>

datatype py_error = ZeroDivisionError | IndexError | ValueError

text \<open>The value of \<^verbatim>\<open>np.mean\<close>: a number, or \<^verbatim>\<open>nan\<close> for an empty list of scores.
  Scores are idealised as real numbers; rounding is not modelled.\<close>

datatype np_float = Finite real | NaN

definition np_mean :: "real list \<Rightarrow> np_float" where
  "np_mean scores = (if scores = [] then NaN else Finite (sum_list scores / real (length scores)))"

text \<open>
  A slice \<^verbatim>\<open>xs[a:b]\<close> of a sequence of \<open>n\<close> rows: a negative bound counts from the end,
  and every bound is clamped into \<open>0..n\<close>, as \<^verbatim>\<open>slice(a, b).indices(n)\<close> does.
\<close>

definition slice_bound :: "int \<Rightarrow> int \<Rightarrow> int" where
  "slice_bound n k = (if k < 0 then max (k + n) 0 else min k n)"

definition slice_indices :: "nat \<Rightarrow> int \<Rightarrow> int \<Rightarrow> nat list" where
  "slice_indices n a b = [nat (slice_bound (int n) a) ..< nat (slice_bound (int n) b)]"

definition py_slice :: "'a list \<Rightarrow> int \<Rightarrow> int \<Rightarrow> 'a list" where
  "py_slice xs a b = map (\<lambda>k. xs ! k) (slice_indices (length xs) a b)"

text \<open>Indexing with an array of row numbers, \<^verbatim>\<open>X[index]\<close>: a row number past the end raises.\<close>

definition take_rows :: "'a list \<Rightarrow> nat list \<Rightarrow> py_error + 'a list" where
  "take_rows xs index =
     (if list_all (\<lambda>k. k < length xs) index then Inr (map (\<lambda>k. xs ! k) index) else Inl IndexError)"

section \<open>Collaborators\<close>

text \<open>
  The routines call \<^verbatim>\<open>fit_transforms\<close>, \<^verbatim>\<open>apply_transforms\<close> and \<^verbatim>\<open>score\<close> of
  \<^verbatim>\<open>ionyx.utils\<close>, the caller's \<^verbatim>\<open>model.fit\<close> and \<^verbatim>\<open>model.predict\<close>, and the library's
  \<^verbatim>\<open>KFold\<close>. None of them is defined in this module, so they are parameters. A feature
  matrix is a list of rows \<open>'x\<close>, labels and predictions are lists over \<open>'y\<close>, the
  transform set has type \<open>'t\<close> and the state of the model object has type \<open>'m\<close>;
  \<^verbatim>\<open>model.fit\<close> updates that state. The development covers the runs in which these
  calls return. \<open>KFold\<close> may reject its arguments.
\<close>

record ('x, 'y, 't, 'm) collaborators =
  fit_transforms :: "'x list \<Rightarrow> 'y list \<Rightarrow> 't \<Rightarrow> 't"
  apply_transforms :: "'x list \<Rightarrow> 't \<Rightarrow> 'x list"
  score :: "'y list \<Rightarrow> 'y list \<Rightarrow> string \<Rightarrow> real"
  model_fit :: "'m \<Rightarrow> 'x list \<Rightarrow> 'y list \<Rightarrow> 'm"
  model_predict :: "'m \<Rightarrow> 'x list \<Rightarrow> 'y list"
  KFold :: "nat \<Rightarrow> int \<Rightarrow> py_error + (nat list \<times> nat list) list"

text \<open>
  The calls a run makes to its collaborators, with their arguments, in order. \<open>Plot\<close>
  stands for lines 84 to 87, the figure of \<^verbatim>\<open>y_pred - y_eval\<close>, which has no part in the
  returned value. Timing and printing are left out.
\<close>

datatype ('x, 'y, 't) call =
    FitTransforms "'x list" "'y list" 't
  | ApplyTransforms "'x list" 't
  | ModelFit "'x list" "'y list"
  | ModelPredict "'x list"
  | Score "'y list" "'y list" string
  | Plot "'y list" "'y list"

fun is_fit :: "('x, 'y, 't) call \<Rightarrow> bool" where
  "is_fit (ModelFit X y) = True"
| "is_fit c = False"

fun is_predict :: "('x, 'y, 't) call \<Rightarrow> bool" where
  "is_predict (ModelPredict X) = True"
| "is_predict c = False"

fun is_score :: "('x, 'y, 't) call \<Rightarrow> bool" where
  "is_score (Score yt yp k) = True"
| "is_score c = False"

fun is_fit_transforms :: "('x, 'y, 't) call \<Rightarrow> bool" where
  "is_fit_transforms (FitTransforms X y t) = True"
| "is_fit_transforms c = False"

section \<open>Sequential cross-validation\<close>

text \<open>
  One record per executed iteration of the loop of \<^verbatim>\<open>sequence_cross_validate\<close>: the
  loop index \<open>sf_i\<close>, the value \<open>sf_transforms_in\<close> of \<open>transforms\<close> when the iteration
  begins, the values of the loop body's variables when it ends, and the calls it made.
  \<open>sf_X_train\<close> and \<open>sf_X_eval\<close> are the slices of line 72; \<open>sf_X_train_t\<close> and
  \<open>sf_X_eval_t\<close> are what lines 76 and 77 rebind these names to.
\<close>

record ('x, 'y, 't, 'm) seq_fold =
  sf_i :: int
  sf_transforms_in :: 't
  fold_start :: int
  fold_end :: int
  fold_train_end :: int
  sf_X_train :: "'x list"
  sf_X_eval :: "'x list"
  sf_y_train :: "'y list"
  sf_y_eval :: "'y list"
  sf_transforms :: 't
  sf_X_train_t :: "'x list"
  sf_X_eval_t :: "'x list"
  sf_model :: 'm
  sf_y_pred :: "'y list"
  sf_score :: real
  sf_calls :: "('x, 'y, 't) call list"

text \<open>The loop body, lines 64 to 87, entered with the current \<open>transforms\<close> and model state.\<close>

definition seq_body ::
  "('x, 'y, 't, 'm) collaborators \<Rightarrow> 'x list \<Rightarrow> 'y list \<Rightarrow> string \<Rightarrow> string \<Rightarrow> int \<Rightarrow> int \<Rightarrow> int
     \<Rightarrow> bool \<Rightarrow> 't \<Rightarrow> 'm \<Rightarrow> int \<Rightarrow> ('x, 'y, 't, 'm) seq_fold" where
  "seq_body env X y metric window_type fold_size min_window forecast_range plot transforms model i =
     (let fstart = (if window_type = ''fixed'' then i * fold_size else 0);
          fend = (i + 1) * fold_size + min_window;
          ftrain_end = fend - forecast_range;
          X_train = py_slice X fstart ftrain_end;
          X_eval = py_slice X ftrain_end fend;
          y_train = py_slice y fstart ftrain_end;
          y_eval = py_slice y ftrain_end fend;
          transforms' = fit_transforms env X_train y_train transforms;
          X_train_t = apply_transforms env X_train transforms';
          X_eval_t = apply_transforms env X_eval transforms';
          model' = model_fit env model X_train_t y_train;
          y_pred = model_predict env model' X_eval_t
      in \<lparr> sf_i = i, sf_transforms_in = transforms,
           fold_start = fstart, fold_end = fend, fold_train_end = ftrain_end,
           sf_X_train = X_train, sf_X_eval = X_eval, sf_y_train = y_train, sf_y_eval = y_eval,
           sf_transforms = transforms', sf_X_train_t = X_train_t, sf_X_eval_t = X_eval_t,
           sf_model = model', sf_y_pred = y_pred, sf_score = score env y y_pred metric,
           sf_calls = [FitTransforms X_train y_train transforms,
                       ApplyTransforms X_train transforms',
                       ApplyTransforms X_eval transforms',
                       ModelFit X_train_t y_train,
                       ModelPredict X_eval_t,
                       Score y y_pred metric]
                      @ (if plot then [Plot y_pred y_eval] else []) \<rparr>)"

text \<open>The state the loop carries: the rebound \<open>transforms\<close>, the model object, the
  list \<open>scores\<close>, and the iterations executed so far.\<close>

record ('x, 'y, 't, 'm) seq_state =
  ss_transforms :: 't
  ss_model :: 'm
  ss_scores :: "real list"
  ss_folds :: "('x, 'y, 't, 'm) seq_fold list"

definition seq_step ::
  "('x, 'y, 't, 'm) collaborators \<Rightarrow> 'x list \<Rightarrow> 'y list \<Rightarrow> string \<Rightarrow> string \<Rightarrow> int \<Rightarrow> int \<Rightarrow> int
     \<Rightarrow> bool \<Rightarrow> ('x, 'y, 't, 'm) seq_state \<Rightarrow> nat \<Rightarrow> ('x, 'y, 't, 'm) seq_state" where
  "seq_step env X y metric window_type fold_size min_window forecast_range plot s i =
     (let r = seq_body env X y metric window_type fold_size min_window forecast_range plot
                (ss_transforms s) (ss_model s) (int i)
      in \<lparr> ss_transforms = sf_transforms r, ss_model = sf_model r,
           ss_scores = ss_scores s @ [sf_score r], ss_folds = ss_folds s @ [r] \<rparr>)"

definition seq_loop ::
  "('x, 'y, 't, 'm) collaborators \<Rightarrow> 'x list \<Rightarrow> 'y list \<Rightarrow> string \<Rightarrow> string \<Rightarrow> int \<Rightarrow> int \<Rightarrow> int
     \<Rightarrow> bool \<Rightarrow> ('x, 'y, 't, 'm) seq_state \<Rightarrow> nat \<Rightarrow> ('x, 'y, 't, 'm) seq_state" where
  "seq_loop env X y metric window_type fold_size min_window forecast_range plot s n =
     foldl (seq_step env X y metric window_type fold_size min_window forecast_range plot) s [0..<n]"

text \<open>What a run returns (\<open>sq_value\<close>), with the iterations it executed.\<close>

record ('x, 'y, 't, 'm) seq_result =
  sq_value :: np_float
  sq_n_folds :: int
  sq_fold_size :: int
  sq_folds :: "('x, 'y, 't, 'm) seq_fold list"

definition seq_finish ::
  "int \<Rightarrow> int \<Rightarrow> ('x, 'y, 't, 'm) seq_state \<Rightarrow> ('x, 'y, 't, 'm) seq_result" where
  "seq_finish n_folds fold_size s =
     \<lparr> sq_value = np_mean (ss_scores s), sq_n_folds = n_folds, sq_fold_size = fold_size,
       sq_folds = ss_folds s \<rparr>"

text \<open>Lines 62 to 92: the loop over \<^verbatim>\<open>range(n_folds)\<close> and the mean of the scores.\<close>

definition seq_run ::
  "('x, 'y, 't, 'm) collaborators \<Rightarrow> 'x list \<Rightarrow> 'y list \<Rightarrow> string \<Rightarrow> string \<Rightarrow> int \<Rightarrow> int
     \<Rightarrow> bool \<Rightarrow> ('x, 'y, 't, 'm) seq_state \<Rightarrow> int \<Rightarrow> int \<Rightarrow> ('x, 'y, 't, 'm) seq_result" where
  "seq_run env X y metric window_type min_window forecast_range plot s0 n_folds fold_size =
     seq_finish n_folds fold_size
       (seq_loop env X y metric window_type fold_size min_window forecast_range plot s0 (nat n_folds))"

definition sequence_cross_validate ::
  "('x, 'y, 't, 'm) collaborators \<Rightarrow> 'x list \<Rightarrow> 'y list \<Rightarrow> 'm \<Rightarrow> string \<Rightarrow> 't \<Rightarrow> int \<Rightarrow> string
     \<Rightarrow> string \<Rightarrow> int \<Rightarrow> int \<Rightarrow> bool \<Rightarrow> py_error + ('x, 'y, 't, 'm) seq_result" where
  "sequence_cross_validate env X y model metric transforms n_folds strategy window_type
       min_window forecast_range plot =
     (let s0 = \<lparr> ss_transforms = transforms, ss_model = model, ss_scores = [], ss_folds = [] \<rparr>;
          train_count = int (length X)
      in if strategy = ''walk-forward''
         then Inr (seq_run env X y metric window_type min_window forecast_range plot s0
                     (train_count - min_window - forecast_range) 1)
         else if n_folds = 0 then Inl ZeroDivisionError
         else Inr (seq_run env X y metric window_type min_window forecast_range plot s0
                     n_folds (train_count div n_folds)))"

definition seq_calls :: "('x, 'y, 't, 'm) seq_result \<Rightarrow> ('x, 'y, 't) call list" where
  "seq_calls res = concat (map sf_calls (sq_folds res))"

section \<open>Standard cross-validation\<close>

text \<open>
  One record per executed iteration of the loop of \<^verbatim>\<open>cross_validate\<close>.
  \<open>cf_transforms_in\<close> is the value of \<open>transforms\<close> when the iteration begins; \<open>cf_X_train\<close>
  and \<open>cf_X_eval\<close> are the rows selected at lines 22 and 24, \<open>cf_X_train_t\<close> and
  \<open>cf_X_eval_t\<close> what lines 28 and 29 rebind these names to; \<open>cf_train_pred\<close> is the
  value of \<^verbatim>\<open>model.predict(X_train)\<close> at line 33 and \<open>cf_eval_pred\<close> the value of
  \<^verbatim>\<open>model.predict(X_eval)\<close> at line 34.
\<close>

record ('x, 'y, 't, 'm) cv_fold =
  cf_transforms_in :: 't
  cf_X_train :: "'x list"
  cf_y_train :: "'y list"
  cf_X_eval :: "'x list"
  cf_y_eval :: "'y list"
  cf_transforms :: 't
  cf_X_train_t :: "'x list"
  cf_X_eval_t :: "'x list"
  cf_model :: 'm
  cf_train_pred :: "'y list"
  cf_train_score :: real
  cf_eval_pred :: "'y list"
  cf_calls :: "('x, 'y, 't) call list"

text \<open>The loop body, lines 21 to 35, for one pair of index arrays.\<close>

definition cv_body ::
  "('x, 'y, 't, 'm) collaborators \<Rightarrow> 'x list \<Rightarrow> 'y list \<Rightarrow> string \<Rightarrow> 't \<Rightarrow> 'm
     \<Rightarrow> nat list \<times> nat list \<Rightarrow> py_error + ('x, 'y, 't, 'm) cv_fold" where
  "cv_body env X y metric transforms model split =
     (case split of (train_index, eval_index) \<Rightarrow>
      case take_rows X train_index of Inl e \<Rightarrow> Inl e | Inr X_train \<Rightarrow>
      case take_rows y train_index of Inl e \<Rightarrow> Inl e | Inr y_train \<Rightarrow>
      case take_rows X eval_index of Inl e \<Rightarrow> Inl e | Inr X_eval \<Rightarrow>
      case take_rows y eval_index of Inl e \<Rightarrow> Inl e | Inr y_eval \<Rightarrow>
        (let transforms' = fit_transforms env X_train y_train transforms;
             X_train_t = apply_transforms env X_train transforms';
             X_eval_t = apply_transforms env X_eval transforms';
             model' = model_fit env model X_train_t y_train;
             train_pred = model_predict env model' X_train_t;
             eval_pred = model_predict env model' X_eval_t
         in Inr \<lparr> cf_transforms_in = transforms,
                  cf_X_train = X_train, cf_y_train = y_train,
                  cf_X_eval = X_eval, cf_y_eval = y_eval,
                  cf_transforms = transforms', cf_X_train_t = X_train_t, cf_X_eval_t = X_eval_t,
                  cf_model = model', cf_train_pred = train_pred,
                  cf_train_score = score env y_train train_pred metric,
                  cf_eval_pred = eval_pred,
                  cf_calls = [FitTransforms X_train y_train transforms,
                              ApplyTransforms X_train transforms',
                              ApplyTransforms X_eval transforms',
                              ModelFit X_train_t y_train,
                              ModelPredict X_train_t,
                              Score y_train train_pred metric,
                              ModelPredict X_eval_t] \<rparr>))"

text \<open>The state the loop carries: the rebound \<open>transforms\<close>, the model object, the three
  accumulators of lines 15 to 17, and the iterations executed so far.\<close>

record ('x, 'y, 't, 'm) cv_state =
  cs_transforms :: 't
  cs_model :: 'm
  y_train_scores :: "real list"
  y_pred :: "'y list"
  y_true :: "'y list"
  cs_folds :: "('x, 'y, 't, 'm) cv_fold list"

definition cv_step ::
  "('x, 'y, 't, 'm) collaborators \<Rightarrow> 'x list \<Rightarrow> 'y list \<Rightarrow> string \<Rightarrow> ('x, 'y, 't, 'm) cv_state
     \<Rightarrow> nat list \<times> nat list \<Rightarrow> py_error + ('x, 'y, 't, 'm) cv_state" where
  "cv_step env X y metric s split =
     (case cv_body env X y metric (cs_transforms s) (cs_model s) split of
        Inl e \<Rightarrow> Inl e
      | Inr r \<Rightarrow> Inr \<lparr> cs_transforms = cf_transforms r, cs_model = cf_model r,
                      y_train_scores = y_train_scores s @ [cf_train_score r],
                      y_pred = y_pred s @ cf_eval_pred r,
                      y_true = y_true s @ cf_y_eval r,
                      cs_folds = cs_folds s @ [r] \<rparr>)"

fun cv_loop ::
  "('x, 'y, 't, 'm) collaborators \<Rightarrow> 'x list \<Rightarrow> 'y list \<Rightarrow> string \<Rightarrow> ('x, 'y, 't, 'm) cv_state
     \<Rightarrow> (nat list \<times> nat list) list \<Rightarrow> py_error + ('x, 'y, 't, 'm) cv_state" where
  "cv_loop env X y metric s [] = Inr s"
| "cv_loop env X y metric s (split # folds) =
     (case cv_step env X y metric s split of
        Inl e \<Rightarrow> Inl e
      | Inr s' \<Rightarrow> cv_loop env X y metric s' folds)"

text \<open>What a run returns (\<open>cross_validation_score\<close>), with the iterations it executed
  and the arguments of the call at line 42.\<close>

record ('x, 'y, 't, 'm) cv_result =
  cross_validation_score :: real
  cv_folds :: "('x, 'y, 't, 'm) cv_fold list"
  cv_final_call :: "('x, 'y, 't) call"

text \<open>
  Lines 20 to 45 for a given list of folds. Line 40 divides the sum of the training
  scores by their number, which raises when no fold was run.
\<close>

definition cross_validate_folds ::
  "('x, 'y, 't, 'm) collaborators \<Rightarrow> 'x list \<Rightarrow> 'y list \<Rightarrow> 'm \<Rightarrow> string \<Rightarrow> 't
     \<Rightarrow> (nat list \<times> nat list) list \<Rightarrow> py_error + ('x, 'y, 't, 'm) cv_result" where
  "cross_validate_folds env X y model metric transforms folds =
     (case cv_loop env X y metric
             \<lparr> cs_transforms = transforms, cs_model = model, y_train_scores = [],
               y_pred = [], y_true = [], cs_folds = [] \<rparr> folds of
        Inl e \<Rightarrow> Inl e
      | Inr s \<Rightarrow>
          if length (y_train_scores s) = 0 then Inl ZeroDivisionError
          else Inr \<lparr> cross_validation_score = score env (y_true s) (y_pred s) metric,
                     cv_folds = cs_folds s,
                     cv_final_call = Score (y_true s) (y_pred s) metric \<rparr>)"

definition cross_validate ::
  "('x, 'y, 't, 'm) collaborators \<Rightarrow> 'x list \<Rightarrow> 'y list \<Rightarrow> 'm \<Rightarrow> string \<Rightarrow> 't \<Rightarrow> int
     \<Rightarrow> py_error + ('x, 'y, 't, 'm) cv_result" where
  "cross_validate env X y model metric transforms n_folds =
     (case KFold env (length y) n_folds of
        Inl e \<Rightarrow> Inl e
      | Inr folds \<Rightarrow> cross_validate_folds env X y model metric transforms folds)"

definition cv_calls :: "('x, 'y, 't, 'm) cv_result \<Rightarrow> ('x, 'y, 't) call list" where
  "cv_calls res = concat (map cf_calls (cv_folds res)) @ [cv_final_call res]"

text \<open>The row numbers of a fold are all within \<open>X\<close> and \<open>y\<close>.\<close>

definition fold_in_range :: "'x list \<Rightarrow> 'y list \<Rightarrow> nat list \<times> nat list \<Rightarrow> bool" where
  "fold_in_range X y split =
     (list_all (\<lambda>k. k < length X) (fst split) \<and> list_all (\<lambda>k. k < length y) (fst split)
      \<and> list_all (\<lambda>k. k < length X) (snd split) \<and> list_all (\<lambda>k. k < length y) (snd split))"

text \<open>
  The evaluation prediction of one fold when the loop body is entered with transform set
  \<open>transforms\<close> and model state \<open>model\<close>: lines 22 to 34 without the training score.
\<close>

definition fold_prediction ::
  "('x, 'y, 't, 'm) collaborators \<Rightarrow> 'x list \<Rightarrow> 'y list \<Rightarrow> 't \<Rightarrow> 'm \<Rightarrow> nat list \<times> nat list
     \<Rightarrow> 'y list" where
  "fold_prediction env X y transforms model split =
     (let X_train = map (\<lambda>k. X ! k) (fst split);
          y_train = map (\<lambda>k. y ! k) (fst split);
          X_eval = map (\<lambda>k. X ! k) (snd split);
          transforms' = fit_transforms env X_train y_train transforms;
          model' = model_fit env model (apply_transforms env X_train transforms') y_train
      in model_predict env model' (apply_transforms env X_eval transforms'))"

section \<open>Concrete collaborators\<close>

text \<open>
  Collaborators to run the routines on: rows and labels are integers. The scorer is the
  sum of squared errors over the paired entries. \<open>example_kfold\<close> cuts \<open>0..<n\<close> into
  \<open>k\<close> consecutive blocks of \<open>n div k\<close> rows, each the evaluation part of one fold,
  and rejects \<open>k < 2\<close> and \<open>k > n\<close> as the library does.
\<close>

definition squared_error :: "int list \<Rightarrow> int list \<Rightarrow> string \<Rightarrow> real" where
  "squared_error yt yp metric = real_of_int (sum_list (map (\<lambda>(a, b). (a - b) * (a - b)) (zip yt yp)))"

definition example_kfold :: "nat \<Rightarrow> int \<Rightarrow> py_error + (nat list \<times> nat list) list" where
  "example_kfold n k =
     (if k < 2 \<or> int n < k then Inl ValueError
      else Inr (map (\<lambda>j. ([0..<j * (n div nat k)] @ [(j + 1) * (n div nat k)..<n],
                           [j * (n div nat k)..<(j + 1) * (n div nat k)]))
                 [0..<nat k]))"

text \<open>A transform set and a model that count how often they were fit; the model
  predicts its count for every row.\<close>

definition counting :: "(int, int, nat, int) collaborators" where
  "counting = \<lparr> fit_transforms = (\<lambda>X y t. Suc t),
                apply_transforms = (\<lambda>X t. X),
                score = squared_error,
                model_fit = (\<lambda>m X y. m + 1),
                model_predict = (\<lambda>m X. replicate (length X) m),
                KFold = example_kfold \<rparr>"

text \<open>A transform set and a model that are fit from scratch: the transform set records
  the number of training rows, the model predicts the sum of the training labels.\<close>

definition refitting :: "(int, int, nat, int) collaborators" where
  "refitting = \<lparr> fit_transforms = (\<lambda>X y t. length X),
                 apply_transforms = (\<lambda>X t. X),
                 score = squared_error,
                 model_fit = (\<lambda>m X y. sum_list y),
                 model_predict = (\<lambda>m X. replicate (length X) m),
                 KFold = example_kfold \<rparr>"

section \<open>The loop of sequential cross-validation\<close>

lemma seq_loop_0:
  "seq_loop env X y metric wt fs mw fr plot s 0 = s"
  by (simp add: seq_loop_def)

lemma seq_loop_Suc:
  "seq_loop env X y metric wt fs mw fr plot s (Suc n)
   = seq_step env X y metric wt fs mw fr plot (seq_loop env X y metric wt fs mw fr plot s n) n"
  by (simp add: seq_loop_def)

lemma seq_loop_folds_Suc:
  "ss_folds (seq_loop env X y metric wt fs mw fr plot s (Suc n))
   = ss_folds (seq_loop env X y metric wt fs mw fr plot s n)
     @ [seq_body env X y metric wt fs mw fr plot
          (ss_transforms (seq_loop env X y metric wt fs mw fr plot s n))
          (ss_model (seq_loop env X y metric wt fs mw fr plot s n)) (int n)]"
  by (simp add: seq_loop_Suc seq_step_def Let_def)

lemma seq_loop_length:
  "length (ss_folds (seq_loop env X y metric wt fs mw fr plot s n)) = length (ss_folds s) + n"
  by (induction n) (simp_all add: seq_loop_0 seq_loop_folds_Suc)

lemma seq_loop_scores:
  "ss_scores s = map sf_score (ss_folds s) \<Longrightarrow>
   ss_scores (seq_loop env X y metric wt fs mw fr plot s n)
   = map sf_score (ss_folds (seq_loop env X y metric wt fs mw fr plot s n))"
  by (induction n) (simp_all add: seq_loop_0 seq_loop_Suc seq_step_def Let_def)

lemma seq_loop_carried:
  "ss_folds s = [] \<Longrightarrow>
   ss_transforms (seq_loop env X y metric wt fs mw fr plot s n)
     = (if n = 0 then ss_transforms s
        else sf_transforms (ss_folds (seq_loop env X y metric wt fs mw fr plot s n) ! (n - 1)))
   \<and> ss_model (seq_loop env X y metric wt fs mw fr plot s n)
     = (if n = 0 then ss_model s
        else sf_model (ss_folds (seq_loop env X y metric wt fs mw fr plot s n) ! (n - 1)))"
  by (cases n) (simp_all add: seq_loop_0 seq_loop_Suc seq_step_def Let_def seq_loop_length nth_append)

lemma seq_loop_prefix_add:
  "i < n \<Longrightarrow> ss_folds s = [] \<Longrightarrow>
   ss_folds (seq_loop env X y metric wt fs mw fr plot s (n + d)) ! i
   = ss_folds (seq_loop env X y metric wt fs mw fr plot s n) ! i"
  by (induction d) (simp_all add: seq_loop_folds_Suc nth_append seq_loop_length)

lemma seq_loop_prefix:
  "i < n \<Longrightarrow> n \<le> n' \<Longrightarrow> ss_folds s = [] \<Longrightarrow>
   ss_folds (seq_loop env X y metric wt fs mw fr plot s n') ! i
   = ss_folds (seq_loop env X y metric wt fs mw fr plot s n) ! i"
  using seq_loop_prefix_add[of i n s env X y metric wt fs mw fr plot "n' - n"] by simp

lemma seq_loop_nth:
  assumes "i < n" and "ss_folds s = []"
  shows "ss_folds (seq_loop env X y metric wt fs mw fr plot s n) ! i
         = seq_body env X y metric wt fs mw fr plot
             (if i = 0 then ss_transforms s
              else sf_transforms (ss_folds (seq_loop env X y metric wt fs mw fr plot s n) ! (i - 1)))
             (if i = 0 then ss_model s
              else sf_model (ss_folds (seq_loop env X y metric wt fs mw fr plot s n) ! (i - 1)))
             (int i)"
proof -
  have a: "ss_folds (seq_loop env X y metric wt fs mw fr plot s n) ! i
           = ss_folds (seq_loop env X y metric wt fs mw fr plot s (Suc i)) ! i"
    using assms by (intro seq_loop_prefix) simp_all
  have b: "i \<noteq> 0 \<Longrightarrow> ss_folds (seq_loop env X y metric wt fs mw fr plot s n) ! (i - 1)
           = ss_folds (seq_loop env X y metric wt fs mw fr plot s i) ! (i - 1)"
    using assms by (intro seq_loop_prefix) simp_all
  have c: "ss_folds (seq_loop env X y metric wt fs mw fr plot s (Suc i)) ! i
           = seq_body env X y metric wt fs mw fr plot
          (ss_transforms (seq_loop env X y metric wt fs mw fr plot s i))
          (ss_model (seq_loop env X y metric wt fs mw fr plot s i)) (int i)"
    using assms by (simp add: seq_loop_folds_Suc nth_append seq_loop_length)
  show ?thesis
    using assms seq_loop_carried[OF assms(2), of env X y metric wt fs mw fr plot i] b
    by (simp add: a c)
qed

lemma seq_run_length:
  "ss_folds s = [] \<Longrightarrow>
   length (sq_folds (seq_run env X y metric wt mw fr plot s n_folds fs)) = nat n_folds"
  by (simp add: seq_run_def seq_finish_def seq_loop_length)

lemma seq_run_nth:
  assumes "i < nat n_folds" and "ss_folds s = []"
  shows "sq_folds (seq_run env X y metric wt mw fr plot s n_folds fs) ! i
         = seq_body env X y metric wt fs mw fr plot
             (if i = 0 then ss_transforms s
              else sf_transforms (sq_folds (seq_run env X y metric wt mw fr plot s n_folds fs) ! (i - 1)))
             (if i = 0 then ss_model s
              else sf_model (sq_folds (seq_run env X y metric wt mw fr plot s n_folds fs) ! (i - 1)))
             (int i)"
  using seq_loop_nth[OF assms, of env X y metric wt fs mw fr plot]
  by (simp add: seq_run_def seq_finish_def)

lemma seq_run_member:
  assumes "r \<in> set (sq_folds (seq_run env X y metric wt mw fr plot s n_folds fs))"
      and "ss_folds s = []"
  shows "\<exists>t m i. i < nat n_folds \<and> r = seq_body env X y metric wt fs mw fr plot t m (int i)"
proof -
  from assms(1) obtain i where i: "i < nat n_folds"
      and r: "r = sq_folds (seq_run env X y metric wt mw fr plot s n_folds fs) ! i"
    by (auto simp: in_set_conv_nth seq_run_length[OF assms(2)])
  show ?thesis
    using i r seq_run_nth[OF i assms(2), of env X y metric wt mw fr plot fs] by metis
qed

lemma seq_run_value:
  "ss_scores s = map sf_score (ss_folds s) \<Longrightarrow>
   sq_value (seq_run env X y metric wt mw fr plot s n_folds fs)
   = np_mean (map sf_score (sq_folds (seq_run env X y metric wt mw fr plot s n_folds fs)))"
  by (simp add: seq_run_def seq_finish_def seq_loop_scores)

lemma seq_body_fields:
  "sf_i (seq_body env X y metric wt fs mw fr plot t m i) = i"
  "sf_transforms_in (seq_body env X y metric wt fs mw fr plot t m i) = t"
  "fold_start (seq_body env X y metric wt fs mw fr plot t m i) = (if wt = ''fixed'' then i * fs else 0)"
  "fold_end (seq_body env X y metric wt fs mw fr plot t m i) = (i + 1) * fs + mw"
  "fold_train_end (seq_body env X y metric wt fs mw fr plot t m i) = (i + 1) * fs + mw - fr"
  by (simp_all add: seq_body_def Let_def)

lemma seq_body_splits:
  "sf_X_train (seq_body env X y metric wt fs mw fr plot t m i)
     = py_slice X (if wt = ''fixed'' then i * fs else 0) ((i + 1) * fs + mw - fr)"
  "sf_y_train (seq_body env X y metric wt fs mw fr plot t m i)
     = py_slice y (if wt = ''fixed'' then i * fs else 0) ((i + 1) * fs + mw - fr)"
  "sf_X_eval (seq_body env X y metric wt fs mw fr plot t m i)
     = py_slice X ((i + 1) * fs + mw - fr) ((i + 1) * fs + mw)"
  "sf_y_eval (seq_body env X y metric wt fs mw fr plot t m i)
     = py_slice y ((i + 1) * fs + mw - fr) ((i + 1) * fs + mw)"
  by (simp_all add: seq_body_def Let_def)

lemma seq_body_fit_predict:
  assumes r_def: "r = seq_body env X y metric wt fs mw fr plot t m i"
  shows "sf_transforms r = fit_transforms env (sf_X_train r) (sf_y_train r) t"
    and "sf_X_train_t r = apply_transforms env (sf_X_train r) (sf_transforms r)"
    and "sf_X_eval_t r = apply_transforms env (sf_X_eval r) (sf_transforms r)"
    and "sf_model r = model_fit env m (sf_X_train_t r) (sf_y_train r)"
    and "sf_y_pred r = model_predict env (sf_model r) (sf_X_eval_t r)"
    and "sf_score r = score env y (sf_y_pred r) metric"
  by (simp_all add: r_def seq_body_def Let_def)

lemma seq_body_calls:
  assumes r_def: "r = seq_body env X y metric wt fs mw fr plot t m i"
  shows "sf_calls r = [FitTransforms (sf_X_train r) (sf_y_train r) t,
                       ApplyTransforms (sf_X_train r) (sf_transforms r),
                       ApplyTransforms (sf_X_eval r) (sf_transforms r),
                       ModelFit (sf_X_train_t r) (sf_y_train r),
                       ModelPredict (sf_X_eval_t r),
                       Score y (sf_y_pred r) metric]
                      @ (if plot then [Plot (sf_y_pred r) (sf_y_eval r)] else [])"
  by (simp add: r_def seq_body_def Let_def)

lemma sequence_cross_validate_cases:
  assumes "sequence_cross_validate env X y model metric transforms n_folds strategy wt mw fr plot = Inr res"
  obtains n fs where
     "res = seq_run env X y metric wt mw fr plot
              \<lparr> ss_transforms = transforms, ss_model = model, ss_scores = [], ss_folds = [] \<rparr> n fs"
     "strategy = ''walk-forward'' \<Longrightarrow> n = int (length X) - mw - fr \<and> fs = 1"
     "strategy \<noteq> ''walk-forward'' \<Longrightarrow> n = n_folds \<and> fs = int (length X) div n_folds \<and> n_folds \<noteq> 0"
  using assms by (auto simp: sequence_cross_validate_def Let_def split: if_splits)

section \<open>Slices\<close>

lemma slice_indices_in_range:
  assumes "0 \<le> a" and "0 \<le> b" and "b \<le> int n"
  shows "slice_indices n a b = [nat a..<nat b]"
proof (cases "a \<le> int n")
  case True
  with assms show ?thesis by (simp add: slice_indices_def slice_bound_def)
next
  case False
  with assms have "nat b \<le> n" and "nat b \<le> nat a" by linarith+
  with assms False show ?thesis by (simp add: slice_indices_def slice_bound_def)
qed

lemma length_py_slice_in_range:
  "0 \<le> a \<Longrightarrow> a \<le> b \<Longrightarrow> b \<le> int (length xs) \<Longrightarrow> length (py_slice xs a b) = nat (b - a)"
  by (simp add: py_slice_def slice_indices_in_range)

lemma map_nth_upt:
  "b \<le> length xs \<Longrightarrow> map (\<lambda>k. xs ! k) [a..<b] = take (b - a) (drop a xs)"
  by (rule nth_equalityI) (auto simp: min_def)

lemma py_slice_in_range:
  "0 \<le> a \<Longrightarrow> 0 \<le> b \<Longrightarrow> b \<le> int (length xs) \<Longrightarrow>
   py_slice xs a b = take (nat b - nat a) (drop (nat a) xs)"
  by (simp add: py_slice_def slice_indices_in_range map_nth_upt)

lemma slice_indices_below:
  "0 \<le> b \<Longrightarrow> k \<in> set (slice_indices n a b) \<Longrightarrow> int k < b"
  by (auto simp: slice_indices_def slice_bound_def)

lemma walk_forward_run:
  "sequence_cross_validate env X y model metric transforms n_folds ''walk-forward'' wt mw fr plot
   = Inr (seq_run env X y metric wt mw fr plot
            \<lparr> ss_transforms = transforms, ss_model = model, ss_scores = [], ss_folds = [] \<rparr>
            (int (length X) - mw - fr) 1)"
  by (simp add: sequence_cross_validate_def)

lemma traditional_run:
  "strategy \<noteq> ''walk-forward'' \<Longrightarrow> n_folds \<noteq> 0 \<Longrightarrow>
   sequence_cross_validate env X y model metric transforms n_folds strategy wt mw fr plot
   = Inr (seq_run env X y metric wt mw fr plot
            \<lparr> ss_transforms = transforms, ss_model = model, ss_scores = [], ss_folds = [] \<rparr>
            n_folds (int (length X) div n_folds))"
  by (simp add: sequence_cross_validate_def)

lemma seq_run_sizes:
  "sq_n_folds (seq_run env X y metric wt mw fr plot s n fs) = n"
  "sq_fold_size (seq_run env X y metric wt mw fr plot s n fs) = fs"
  by (simp_all add: seq_run_def seq_finish_def)

lemma seq_cv_run:
  assumes "sequence_cross_validate env X y model metric transforms n_folds strategy wt mw fr plot = Inr res"
  shows "\<exists>n fs. res = seq_run env X y metric wt mw fr plot
              \<lparr> ss_transforms = transforms, ss_model = model, ss_scores = [], ss_folds = [] \<rparr> n fs
          \<and> (strategy = ''walk-forward'' \<longrightarrow> n = int (length X) - mw - fr \<and> fs = 1)
          \<and> (strategy \<noteq> ''walk-forward'' \<longrightarrow> n = n_folds \<and> fs = int (length X) div n_folds \<and> n_folds \<noteq> 0)"
  using assms by (auto simp: sequence_cross_validate_def Let_def split: if_splits)

lemma seq_run_fold_start:
  assumes "i < nat n" and "ss_folds s = []"
  shows "fold_start (sq_folds (seq_run env X y metric wt mw fr plot s n fs) ! i)
         = (if wt = ''fixed'' then int i * fs else 0)"
  by (simp add: seq_run_nth[OF assms] seq_body_fields)

lemma seq_run_fold_end:
  assumes "i < nat n" and "ss_folds s = []"
  shows "fold_end (sq_folds (seq_run env X y metric wt mw fr plot s n fs) ! i) = (int i + 1) * fs + mw"
    and "fold_train_end (sq_folds (seq_run env X y metric wt mw fr plot s n fs) ! i) = (int i + 1) * fs + mw - fr"
    and "sf_i (sq_folds (seq_run env X y metric wt mw fr plot s n fs) ! i) = int i"
  by (simp_all add: seq_run_nth[OF assms] seq_body_fields)

section \<open>The loop of standard cross-validation\<close>

lemma cv_body_Inr:
  assumes "cv_body env X y metric t m split = Inr r"
  shows "fold_in_range X y split"
    and "cf_transforms_in r = t"
    and "cf_X_train r = map (\<lambda>k. X ! k) (fst split)"
    and "cf_y_train r = map (\<lambda>k. y ! k) (fst split)"
    and "cf_X_eval r = map (\<lambda>k. X ! k) (snd split)"
    and "cf_y_eval r = map (\<lambda>k. y ! k) (snd split)"
    and "cf_transforms r = fit_transforms env (cf_X_train r) (cf_y_train r) t"
    and "cf_X_train_t r = apply_transforms env (cf_X_train r) (cf_transforms r)"
    and "cf_X_eval_t r = apply_transforms env (cf_X_eval r) (cf_transforms r)"
    and "cf_model r = model_fit env m (cf_X_train_t r) (cf_y_train r)"
    and "cf_train_pred r = model_predict env (cf_model r) (cf_X_train_t r)"
    and "cf_train_score r = score env (cf_y_train r) (cf_train_pred r) metric"
    and "cf_eval_pred r = model_predict env (cf_model r) (cf_X_eval_t r)"
    and "cf_calls r = [FitTransforms (cf_X_train r) (cf_y_train r) t,
                       ApplyTransforms (cf_X_train r) (cf_transforms r),
                       ApplyTransforms (cf_X_eval r) (cf_transforms r),
                       ModelFit (cf_X_train_t r) (cf_y_train r),
                       ModelPredict (cf_X_train_t r),
                       Score (cf_y_train r) (cf_train_pred r) metric,
                       ModelPredict (cf_X_eval_t r)]"
  using assms
  by (auto simp: cv_body_def take_rows_def fold_in_range_def Let_def
           split: prod.splits if_splits)

lemma cv_body_in_range:
  "fold_in_range X y split \<Longrightarrow> \<exists>r. cv_body env X y metric t m split = Inr r"
  by (cases split) (simp add: cv_body_def take_rows_def fold_in_range_def Let_def)

lemma cv_body_out_of_range:
  "\<not> fold_in_range X y split \<Longrightarrow> cv_body env X y metric t m split = Inl IndexError"
  by (cases split) (auto simp: cv_body_def take_rows_def fold_in_range_def Let_def)

lemma cv_step_Inr:
  assumes "cv_step env X y metric s split = Inr s'"
  shows "\<exists>r. cv_body env X y metric (cs_transforms s) (cs_model s) split = Inr r
           \<and> cs_transforms s' = cf_transforms r \<and> cs_model s' = cf_model r
           \<and> y_train_scores s' = y_train_scores s @ [cf_train_score r]
           \<and> y_pred s' = y_pred s @ cf_eval_pred r
           \<and> y_true s' = y_true s @ cf_y_eval r
           \<and> cs_folds s' = cs_folds s @ [r]"
  using assms by (auto simp: cv_step_def split: sum.splits)

lemma cv_loop_Inr:
  assumes "cv_loop env X y metric s folds = Inr s'"
  shows "\<exists>rs. cs_folds s' = cs_folds s @ rs \<and> length rs = length folds
           \<and> y_train_scores s' = y_train_scores s @ map cf_train_score rs
           \<and> y_pred s' = y_pred s @ concat (map cf_eval_pred rs)
           \<and> y_true s' = y_true s @ concat (map cf_y_eval rs)
           \<and> (\<forall>i < length folds.
                 cv_body env X y metric
                   (if i = 0 then cs_transforms s else cf_transforms (rs ! (i - 1)))
                   (if i = 0 then cs_model s else cf_model (rs ! (i - 1)))
                   (folds ! i) = Inr (rs ! i))"
  using assms
proof (induction folds arbitrary: s)
  case Nil
  then show ?case by simp
next
  case (Cons split folds)
  from Cons.prems obtain s1 where
    step: "cv_step env X y metric s split = Inr s1"
    and rest: "cv_loop env X y metric s1 folds = Inr s'"
    by (auto split: sum.splits)
  from cv_step_Inr[OF step] obtain r where
    r: "cv_body env X y metric (cs_transforms s) (cs_model s) split = Inr r"
       "cs_transforms s1 = cf_transforms r" "cs_model s1 = cf_model r"
       "y_train_scores s1 = y_train_scores s @ [cf_train_score r]"
       "y_pred s1 = y_pred s @ cf_eval_pred r"
       "y_true s1 = y_true s @ cf_y_eval r"
       "cs_folds s1 = cs_folds s @ [r]"
    by blast
  from Cons.IH[OF rest] obtain rs where
    rs: "cs_folds s' = cs_folds s1 @ rs" "length rs = length folds"
        "y_train_scores s' = y_train_scores s1 @ map cf_train_score rs"
        "y_pred s' = y_pred s1 @ concat (map cf_eval_pred rs)"
        "y_true s' = y_true s1 @ concat (map cf_y_eval rs)"
    and nth: "\<forall>i < length folds.
                 cv_body env X y metric
                   (if i = 0 then cs_transforms s1 else cf_transforms (rs ! (i - 1)))
                   (if i = 0 then cs_model s1 else cf_model (rs ! (i - 1)))
                   (folds ! i) = Inr (rs ! i)"
    by blast
  have "\<forall>i < length (split # folds).
          cv_body env X y metric
            (if i = 0 then cs_transforms s else cf_transforms ((r # rs) ! (i - 1)))
            (if i = 0 then cs_model s else cf_model ((r # rs) ! (i - 1)))
            ((split # folds) ! i) = Inr ((r # rs) ! i)"
  proof (intro allI impI)
    fix i assume i: "i < length (split # folds)"
    show "cv_body env X y metric
            (if i = 0 then cs_transforms s else cf_transforms ((r # rs) ! (i - 1)))
            (if i = 0 then cs_model s else cf_model ((r # rs) ! (i - 1)))
            ((split # folds) ! i) = Inr ((r # rs) ! i)"
    proof (cases i)
      case 0
      then show ?thesis using r(1) by simp
    next
      case (Suc k)
      with i have k: "k < length folds" by simp
      from nth k have "cv_body env X y metric
                   (if k = 0 then cs_transforms s1 else cf_transforms (rs ! (k - 1)))
                   (if k = 0 then cs_model s1 else cf_model (rs ! (k - 1)))
                   (folds ! k) = Inr (rs ! k)" by blast
      then show ?thesis
        using Suc r(2,3) by (cases k) simp_all
    qed
  qed
  then show ?case
    using r rs by (intro exI[of _ "r # rs"]) simp
qed

lemma cv_loop_in_range:
  "list_all (fold_in_range X y) folds \<Longrightarrow> \<exists>s'. cv_loop env X y metric s folds = Inr s'"
proof (induction folds arbitrary: s)
  case Nil
  then show ?case by simp
next
  case (Cons split folds)
  then obtain r where "cv_body env X y metric (cs_transforms s) (cs_model s) split = Inr r"
    using cv_body_in_range[of X y split env metric "cs_transforms s" "cs_model s"] by auto
  then show ?case
    using Cons by (simp add: cv_step_def)
qed

lemma cv_loop_out_of_range:
  "\<not> list_all (fold_in_range X y) folds \<Longrightarrow> cv_loop env X y metric s folds = Inl IndexError"
proof (induction folds arbitrary: s)
  case Nil
  then show ?case by simp
next
  case (Cons split folds)
  show ?case
  proof (cases "fold_in_range X y split")
    case True
    then obtain r where "cv_body env X y metric (cs_transforms s) (cs_model s) split = Inr r"
      using cv_body_in_range[of X y split env metric "cs_transforms s" "cs_model s"] by auto
    then show ?thesis
      using Cons True by (simp add: cv_step_def)
  next
    case False
    then show ?thesis
      by (simp add: cv_step_def cv_body_out_of_range)
  qed
qed

lemma cross_validate_folds_Inr:
  assumes "cross_validate_folds env X y model metric transforms folds = Inr res"
  shows "length (cv_folds res) = length folds \<and> folds \<noteq> []
       \<and> cross_validation_score res
           = score env (concat (map cf_y_eval (cv_folds res)))
               (concat (map cf_eval_pred (cv_folds res))) metric
       \<and> cv_final_call res
           = Score (concat (map cf_y_eval (cv_folds res)))
               (concat (map cf_eval_pred (cv_folds res))) metric
       \<and> (\<forall>i < length folds.
             cv_body env X y metric
               (if i = 0 then transforms else cf_transforms (cv_folds res ! (i - 1)))
               (if i = 0 then model else cf_model (cv_folds res ! (i - 1)))
               (folds ! i) = Inr (cv_folds res ! i))"
proof -
  let ?s0 = "\<lparr> cs_transforms = transforms, cs_model = model, y_train_scores = [],
               y_pred = [], y_true = [], cs_folds = [] \<rparr>"
  from assms obtain s where
    loop: "cv_loop env X y metric ?s0 folds = Inr s"
    and scores: "length (y_train_scores s) \<noteq> 0"
    and res: "res = \<lparr> cross_validation_score = score env (y_true s) (y_pred s) metric,
                     cv_folds = cs_folds s,
                     cv_final_call = Score (y_true s) (y_pred s) metric \<rparr>"
    by (auto simp: cross_validate_folds_def split: sum.splits if_splits)
  from cv_loop_Inr[OF loop] obtain rs where
    rs: "cs_folds s = rs" "length rs = length folds"
        "y_train_scores s = map cf_train_score rs"
        "y_pred s = concat (map cf_eval_pred rs)"
        "y_true s = concat (map cf_y_eval rs)"
    and nth: "\<forall>i < length folds.
                 cv_body env X y metric
                   (if i = 0 then transforms else cf_transforms (rs ! (i - 1)))
                   (if i = 0 then model else cf_model (rs ! (i - 1)))
                   (folds ! i) = Inr (rs ! i)"
    by (auto cong: if_cong)
  from scores rs have nonempty: "folds \<noteq> []" by auto
  have a: "cv_folds res = rs" by (simp add: res rs)
  have b: "cross_validation_score res
             = score env (concat (map cf_y_eval rs)) (concat (map cf_eval_pred rs)) metric"
    by (simp add: res rs)
  have c: "cv_final_call res
             = Score (concat (map cf_y_eval rs)) (concat (map cf_eval_pred rs)) metric"
    by (simp add: res rs)
  show ?thesis
    unfolding a using rs(2) nonempty b c nth by blast
qed

lemma cross_validate_folds_in_range:
  assumes "list_all (fold_in_range X y) folds" and "folds \<noteq> []"
  shows "\<exists>res. cross_validate_folds env X y model metric transforms folds = Inr res"
proof -
  let ?s0 = "\<lparr> cs_transforms = transforms, cs_model = model, y_train_scores = [],
               y_pred = [], y_true = [], cs_folds = [] \<rparr>"
  from cv_loop_in_range[OF assms(1)] obtain s where
    loop: "cv_loop env X y metric ?s0 folds = Inr s" by blast
  from cv_loop_Inr[OF loop] assms(2) have "length (y_train_scores s) \<noteq> 0" by auto
  with loop show ?thesis by (simp add: cross_validate_folds_def)
qed

lemma cv_fold_calls_filters:
  assumes "cv_body env X y metric t m split = Inr r"
  shows "filter is_fit (cf_calls r) = [ModelFit (cf_X_train_t r) (cf_y_train r)]"
    and "filter is_predict (cf_calls r) = [ModelPredict (cf_X_train_t r), ModelPredict (cf_X_eval_t r)]"
    and "filter is_score (cf_calls r) = [Score (cf_y_train r) (cf_train_pred r) metric]"
    and "filter is_fit_transforms (cf_calls r) = [FitTransforms (cf_X_train r) (cf_y_train r) t]"
  by (simp_all add: cv_body_Inr(14)[OF assms])

lemma cv_folds_member:
  assumes "cross_validate_folds env X y model metric transforms folds = Inr res"
      and "r \<in> set (cv_folds res)"
  shows "\<exists>t m split. cv_body env X y metric t m split = Inr r \<and> split \<in> set folds"
proof -
  from cross_validate_folds_Inr[OF assms(1)] have len: "length (cv_folds res) = length folds"
    and nth: "\<forall>i < length folds.
             cv_body env X y metric
               (if i = 0 then transforms else cf_transforms (cv_folds res ! (i - 1)))
               (if i = 0 then model else cf_model (cv_folds res ! (i - 1)))
               (folds ! i) = Inr (cv_folds res ! i)"
    by blast+
  from assms(2) len obtain i where i: "i < length folds" and r: "r = cv_folds res ! i"
    by (auto simp: in_set_conv_nth)
  from nth i r show ?thesis by (metis nth_mem)
qed

lemma concat_filter_calls:
  assumes "\<forall>r \<in> set rs. filter P (cf_calls r) = h r"
  shows "filter P (concat (map cf_calls rs)) = concat (map h rs)"
  using assms by (induction rs) simp_all

lemma length_filter_concat_calls:
  assumes "\<forall>r \<in> set rs. length (filter P (cf_calls r)) = n"
  shows "length (filter P (concat (map cf_calls rs))) = n * length rs"
  using assms by (induction rs) simp_all

lemma cv_call_counts:
  assumes "cross_validate_folds env X y model metric transforms folds = Inr res"
  shows "length (filter is_fit (cv_calls res)) = length folds"
    and "length (filter is_predict (cv_calls res)) = 2 * length folds"
    and "length (filter is_fit_transforms (cv_calls res)) = length folds"
proof -
  from cross_validate_folds_Inr[OF assms] have len: "length (cv_folds res) = length folds"
    and final: "cv_final_call res
           = Score (concat (map cf_y_eval (cv_folds res)))
               (concat (map cf_eval_pred (cv_folds res))) metric"
    by blast+
  have each: "length (filter is_fit (cf_calls r)) = 1 \<and> length (filter is_predict (cf_calls r)) = 2
            \<and> length (filter is_fit_transforms (cf_calls r)) = 1"
    if "r \<in> set (cv_folds res)" for r
  proof -
    from cv_folds_member[OF assms that] obtain t m split where
      b: "cv_body env X y metric t m split = Inr r" by blast
    show ?thesis by (simp add: cv_fold_calls_filters[OF b])
  qed
  show "length (filter is_fit (cv_calls res)) = length folds"
    using length_filter_concat_calls[of "cv_folds res" is_fit 1] each
    by (simp add: cv_calls_def final len)
  show "length (filter is_predict (cv_calls res)) = 2 * length folds"
    using length_filter_concat_calls[of "cv_folds res" is_predict 2] each
    by (simp add: cv_calls_def final len)
  show "length (filter is_fit_transforms (cv_calls res)) = length folds"
    using length_filter_concat_calls[of "cv_folds res" is_fit_transforms 1] each
    by (simp add: cv_calls_def final len)
qed

lemma cv_label_count:
  assumes "cross_validate_folds env X y model metric transforms folds = Inr res"
  shows "length (concat (map cf_y_eval (cv_folds res))) = sum_list (map (\<lambda>split. length (snd split)) folds)"
proof -
  from cross_validate_folds_Inr[OF assms] have len: "length (cv_folds res) = length folds"
    and nth: "\<forall>i < length folds.
             cv_body env X y metric
               (if i = 0 then transforms else cf_transforms (cv_folds res ! (i - 1)))
               (if i = 0 then model else cf_model (cv_folds res ! (i - 1)))
               (folds ! i) = Inr (cv_folds res ! i)"
    by blast+
  have "map (\<lambda>r. length (cf_y_eval r)) (cv_folds res) = map (\<lambda>split. length (snd split)) folds"
  proof (rule nth_equalityI)
    show "length (map (\<lambda>r. length (cf_y_eval r)) (cv_folds res))
          = length (map (\<lambda>split. length (snd split)) folds)"
      by (simp add: len)
  next
    fix i assume "i < length (map (\<lambda>r. length (cf_y_eval r)) (cv_folds res))"
    then have i: "i < length folds" by (simp add: len)
    with nth obtain t m where b: "cv_body env X y metric t m (folds ! i) = Inr (cv_folds res ! i)"
      by blast
    show "map (\<lambda>r. length (cf_y_eval r)) (cv_folds res) ! i
          = map (\<lambda>split. length (snd split)) folds ! i"
      using i len by (simp add: cv_body_Inr(6)[OF b])
  qed
  then have "sum_list (map (\<lambda>r. length (cf_y_eval r)) (cv_folds res))
             = sum_list (map (\<lambda>split. length (snd split)) folds)"
    by (rule arg_cong)
  then show ?thesis
    by (simp only: length_concat map_map comp_def)
qed

lemma cv_prediction_count:
  assumes "cross_validate_folds env X y model metric transforms folds = Inr res"
      and "\<forall>m Z. length (model_predict env m Z) = length Z"
      and "\<forall>Z t. length (apply_transforms env Z t) = length Z"
  shows "length (concat (map cf_eval_pred (cv_folds res))) = length (concat (map cf_y_eval (cv_folds res)))"
proof -
  have "length (cf_eval_pred r) = length (cf_y_eval r)" if "r \<in> set (cv_folds res)" for r
  proof -
    from cv_folds_member[OF assms(1) that] obtain t m split where
      b: "cv_body env X y metric t m split = Inr r" by blast
    show ?thesis
      using assms(2,3) by (simp add: cv_body_Inr(5,6,9,13)[OF b])
  qed
  then have "map (\<lambda>r. length (cf_eval_pred r)) (cv_folds res) = map (\<lambda>r. length (cf_y_eval r)) (cv_folds res)"
    by simp
  then have "sum_list (map (\<lambda>r. length (cf_eval_pred r)) (cv_folds res))
             = sum_list (map (\<lambda>r. length (cf_y_eval r)) (cv_folds res))"
    by (rule arg_cong)
  then show ?thesis
    by (simp only: length_concat map_map comp_def)
qed

lemma seq_run_transforms_in:
  assumes "i < nat n" and "ss_folds s = []"
  shows "sf_transforms_in (sq_folds (seq_run env X y metric wt mw fr plot s n fs) ! i)
         = (if i = 0 then ss_transforms s
            else sf_transforms (sq_folds (seq_run env X y metric wt mw fr plot s n fs) ! (i - 1)))"
  by (subst seq_run_nth[OF assms]) (simp only: seq_body_fields(2))

lemma seq_body_transform_calls:
  assumes "r = seq_body env X y metric wt fs mw fr plot t m i"
  shows "filter is_fit_transforms (sf_calls r) = [FitTransforms (sf_X_train r) (sf_y_train r) t]"
    and "take 3 (sf_calls r) = [FitTransforms (sf_X_train r) (sf_y_train r) t,
                                ApplyTransforms (sf_X_train r) (sf_transforms r),
                                ApplyTransforms (sf_X_eval r) (sf_transforms r)]"
    and "sf_transforms_in r = t"
    and "sf_X_train r = py_slice X (fold_start r) (fold_train_end r)"
    and "sf_y_train r = py_slice y (fold_start r) (fold_train_end r)"
    and "sf_transforms r = fit_transforms env (sf_X_train r) (sf_y_train r) t"
  by (simp_all add: assms seq_body_def Let_def)

lemma cv_body_transform_calls:
  assumes "cv_body env X y metric t m split = Inr r"
  shows "filter is_fit_transforms (cf_calls r) = [FitTransforms (cf_X_train r) (cf_y_train r) t]"
    and "take 3 (cf_calls r) = [FitTransforms (cf_X_train r) (cf_y_train r) t,
                                ApplyTransforms (cf_X_train r) (cf_transforms r),
                                ApplyTransforms (cf_X_eval r) (cf_transforms r)]"
  by (simp_all add: cv_body_Inr(14)[OF assms])

section \<open>Fold order\<close>

lemma cv_body_prediction:
  assumes "cv_body env X y metric t m split = Inr r"
  shows "cf_eval_pred r = fold_prediction env X y t m split"
  using cv_body_Inr(3,4,5,7,8,9,10,13)[OF assms]
  by (simp add: fold_prediction_def Let_def)

lemma fold_prediction_refit:
  assumes "\<forall>m m' Z l. model_fit env m Z l = model_fit env m' Z l"
      and "\<forall>t t' Z l. fit_transforms env Z l t = fit_transforms env Z l t'"
  shows "fold_prediction env X y t m split = fold_prediction env X y t0 m0 split"
proof -
  have t: "fit_transforms env Z l t = fit_transforms env Z l t0" for Z l
    using assms(2) by blast
  have m: "model_fit env m Z l = model_fit env m0 Z l" for Z l
    using assms(1) by blast
  show ?thesis
    by (simp add: fold_prediction_def Let_def t m)
qed

lemma cv_loop_refit:
  assumes "cv_loop env X y metric s folds = Inr s'"
      and "\<forall>m m' Z l. model_fit env m Z l = model_fit env m' Z l"
      and "\<forall>t t' Z l. fit_transforms env Z l t = fit_transforms env Z l t'"
  shows "y_pred s' = y_pred s @ concat (map (fold_prediction env X y t0 m0) folds)
       \<and> y_true s' = y_true s @ concat (map (\<lambda>split. map (\<lambda>k. y ! k) (snd split)) folds)
       \<and> length (y_train_scores s') = length (y_train_scores s) + length folds"
  using assms(1)
proof (induction folds arbitrary: s)
  case Nil
  then show ?case by simp
next
  case (Cons split folds)
  from Cons.prems obtain s1 where
    step: "cv_step env X y metric s split = Inr s1"
    and rest: "cv_loop env X y metric s1 folds = Inr s'"
    by (auto split: sum.splits)
  from cv_step_Inr[OF step] obtain r where
    b: "cv_body env X y metric (cs_transforms s) (cs_model s) split = Inr r"
    and s1: "y_train_scores s1 = y_train_scores s @ [cf_train_score r]"
       "y_pred s1 = y_pred s @ cf_eval_pred r"
       "y_true s1 = y_true s @ cf_y_eval r"
    by blast
  have p: "cf_eval_pred r = fold_prediction env X y t0 m0 split"
    using cv_body_prediction[OF b] fold_prediction_refit[OF assms(2,3)] by simp
  have e: "cf_y_eval r = map (\<lambda>k. y ! k) (snd split)"
    by (rule cv_body_Inr(6)[OF b])
  from Cons.IH[OF rest] show ?case
    by (simp add: s1 p e)
qed

lemma cross_validate_folds_refit:
  assumes "\<forall>m m' Z l. model_fit env m Z l = model_fit env m' Z l"
      and "\<forall>t t' Z l. fit_transforms env Z l t = fit_transforms env Z l t'"
  shows "map_sum id cross_validation_score
           (cross_validate_folds env X y model metric transforms folds)
         = (if \<not> list_all (fold_in_range X y) folds then Inl IndexError
            else if folds = [] then Inl ZeroDivisionError
            else Inr (score env (concat (map (\<lambda>split. map (\<lambda>k. y ! k) (snd split)) folds))
                        (concat (map (fold_prediction env X y transforms model) folds)) metric))"
proof (cases "list_all (fold_in_range X y) folds")
  case False
  then show ?thesis
    by (simp add: cross_validate_folds_def cv_loop_out_of_range)
next
  case True
  let ?s0 = "\<lparr> cs_transforms = transforms, cs_model = model, y_train_scores = [],
               y_pred = [], y_true = [], cs_folds = [] \<rparr>"
  from cv_loop_in_range[OF True] obtain s where
    loop: "cv_loop env X y metric ?s0 folds = Inr s" by blast
  from cv_loop_refit[OF loop assms, of transforms model]
  have s: "y_pred s = concat (map (fold_prediction env X y transforms model) folds)"
          "y_true s = concat (map (\<lambda>split. map (\<lambda>k. y ! k) (snd split)) folds)"
          "length (y_train_scores s) = length folds"
    by simp_all
  show ?thesis
    using True by (simp add: cross_validate_folds_def loop s)
qed

lemma mset_concat_map_cong:
  assumes "mset fs' = mset fs"
  shows "mset (concat (map g fs')) = mset (concat (map g fs))"
proof -
  have "mset (concat (map g l)) = sum_mset (image_mset (\<lambda>x. mset (g x)) (mset l))" for l
    by (induction l) simp_all
  with assms show ?thesis by simp
qed

lemma zip_concat_map:
  assumes "\<forall>x. length (f x) = length (g x)"
  shows "zip (concat (map f fs)) (concat (map g fs)) = concat (map (\<lambda>x. zip (f x) (g x)) fs)"
  using assms by (induction fs) simp_all

lemma length_concat_map_cong:
  assumes "\<forall>x. length (f x) = length (g x)"
  shows "length (concat (map f fs)) = length (concat (map g fs))"
  using assms by (induction fs) simp_all

lemma length_fold_prediction:
  assumes "\<forall>m Z. length (model_predict env m Z) = length Z"
      and "\<forall>Z t. length (apply_transforms env Z t) = length Z"
  shows "length (fold_prediction env X y t m split) = length (snd split)"
  using assms by (simp add: fold_prediction_def Let_def)

lemma squared_error_pairs:
  assumes "mset (zip yt yp) = mset (zip yt' yp')"
  shows "squared_error yt yp metric = squared_error yt' yp' metric"
proof -
  have "sum_list (map f ps) = sum_mset (image_mset f (mset ps))"
    for f :: "int \<times> int \<Rightarrow> int" and ps
    by (induction ps) simp_all
  then have "sum_list (map (\<lambda>(a, b). (a - b) * (a - b)) (zip yt yp))
             = sum_list (map (\<lambda>(a, b). (a - b) * (a - b)) (zip yt' yp'))"
    by (simp only: assms)
  then show ?thesis
    by (simp only: squared_error_def)
qed

section \<open>Properties of sequential cross-validation\<close>

text \<open>
  C9. With \<open>strategy = 'walk-forward'\<close> the run does not depend on the caller's
  \<open>n_folds\<close>: two calls that differ only in \<open>n_folds\<close> return the same score (and
  execute the same iterations), because \<open>n_folds\<close> is overwritten before it is read.
\<close>

theorem walk_forward_ignores_n_folds:
  "sequence_cross_validate env X y model metric transforms n_folds ''walk-forward'' window_type
       min_window forecast_range plot
   = sequence_cross_validate env X y model metric transforms n_folds' ''walk-forward'' window_type
       min_window forecast_range plot"
  by (simp add: sequence_cross_validate_def)

text \<open>
  C1. In \<open>sequence_cross_validate\<close> every fold fits the model on the (transformed)
  training split and predicts on the (transformed) evaluation split; the fold's score is
  the scorer applied to the full label vector \<open>y\<close> and that prediction, which is the only
  scorer call of the fold; and the returned value is the arithmetic mean of the per-fold
  scores (\<open>nan\<close> when no fold was run).
\<close>

theorem seq_cv_scores_against_full_labels:
  assumes "sequence_cross_validate env X y model metric transforms n_folds strategy window_type
             min_window forecast_range plot = Inr res"
  shows "sq_value res = np_mean (map sf_score (sq_folds res))
       \<and> (sq_folds res \<noteq> [] \<longrightarrow>
            sq_value res = Finite (sum_list (map sf_score (sq_folds res)) / real (length (sq_folds res))))
       \<and> (\<forall>r \<in> set (sq_folds res).
            sf_X_train r = py_slice X (fold_start r) (fold_train_end r)
          \<and> sf_y_train r = py_slice y (fold_start r) (fold_train_end r)
          \<and> sf_X_eval r = py_slice X (fold_train_end r) (fold_end r)
          \<and> sf_X_train_t r = apply_transforms env (sf_X_train r) (sf_transforms r)
          \<and> sf_X_eval_t r = apply_transforms env (sf_X_eval r) (sf_transforms r)
          \<and> (\<exists>m. sf_model r = model_fit env m (sf_X_train_t r) (sf_y_train r))
          \<and> sf_y_pred r = model_predict env (sf_model r) (sf_X_eval_t r)
          \<and> sf_score r = score env y (sf_y_pred r) metric
          \<and> filter is_fit (sf_calls r) = [ModelFit (sf_X_train_t r) (sf_y_train r)]
          \<and> filter is_predict (sf_calls r) = [ModelPredict (sf_X_eval_t r)]
          \<and> filter is_score (sf_calls r) = [Score y (sf_y_pred r) metric])"
proof -
  let ?s0 = "\<lparr> ss_transforms = transforms, ss_model = model, ss_scores = [], ss_folds = [] \<rparr>"
  from assms obtain n fs where
    res: "res = seq_run env X y metric window_type min_window forecast_range plot ?s0 n fs"
    by (rule sequence_cross_validate_cases)
  have mean: "sq_value res = np_mean (map sf_score (sq_folds res))"
    unfolding res by (rule seq_run_value) simp
  have nonempty: "sq_folds res \<noteq> [] \<longrightarrow>
      sq_value res = Finite (sum_list (map sf_score (sq_folds res)) / real (length (sq_folds res)))"
    by (simp add: mean np_mean_def)
  have folds: "\<forall>r \<in> set (sq_folds res).
            sf_X_train r = py_slice X (fold_start r) (fold_train_end r)
          \<and> sf_y_train r = py_slice y (fold_start r) (fold_train_end r)
          \<and> sf_X_eval r = py_slice X (fold_train_end r) (fold_end r)
          \<and> sf_X_train_t r = apply_transforms env (sf_X_train r) (sf_transforms r)
          \<and> sf_X_eval_t r = apply_transforms env (sf_X_eval r) (sf_transforms r)
          \<and> (\<exists>m. sf_model r = model_fit env m (sf_X_train_t r) (sf_y_train r))
          \<and> sf_y_pred r = model_predict env (sf_model r) (sf_X_eval_t r)
          \<and> sf_score r = score env y (sf_y_pred r) metric
          \<and> filter is_fit (sf_calls r) = [ModelFit (sf_X_train_t r) (sf_y_train r)]
          \<and> filter is_predict (sf_calls r) = [ModelPredict (sf_X_eval_t r)]
          \<and> filter is_score (sf_calls r) = [Score y (sf_y_pred r) metric]"
  proof
    fix r assume "r \<in> set (sq_folds res)"
    then obtain t m i where
      r: "r = seq_body env X y metric window_type fs min_window forecast_range plot t m (int i)"
      unfolding res using seq_run_member[of r env X y metric window_type min_window forecast_range plot ?s0 n fs]
      by auto
    have "\<exists>m. sf_model r = model_fit env m (sf_X_train_t r) (sf_y_train r)"
      using seq_body_fit_predict(4)[OF r] by blast
    then show "sf_X_train r = py_slice X (fold_start r) (fold_train_end r)
          \<and> sf_y_train r = py_slice y (fold_start r) (fold_train_end r)
          \<and> sf_X_eval r = py_slice X (fold_train_end r) (fold_end r)
          \<and> sf_X_train_t r = apply_transforms env (sf_X_train r) (sf_transforms r)
          \<and> sf_X_eval_t r = apply_transforms env (sf_X_eval r) (sf_transforms r)
          \<and> (\<exists>m. sf_model r = model_fit env m (sf_X_train_t r) (sf_y_train r))
          \<and> sf_y_pred r = model_predict env (sf_model r) (sf_X_eval_t r)
          \<and> sf_score r = score env y (sf_y_pred r) metric
          \<and> filter is_fit (sf_calls r) = [ModelFit (sf_X_train_t r) (sf_y_train r)]
          \<and> filter is_predict (sf_calls r) = [ModelPredict (sf_X_eval_t r)]
          \<and> filter is_score (sf_calls r) = [Score y (sf_y_pred r) metric]"
      by (simp add: r seq_body_def Let_def)
  qed
  from mean nonempty folds show ?thesis by blast
qed

theorem seq_cv_scores_against_full_labels_witness:
  "map_sum id sq_value
     (sequence_cross_validate counting [10, 20, 30, 40] [1, 2, 3, 4] 0 ''mse'' 0 2
        ''traditional'' ''cumulative'' 0 1 False)
   = Inr (Finite (1 / 2))"
proof -
  obtain res where run:
    "sequence_cross_validate counting [10, 20, 30, 40] [1, 2, 3, 4] 0 ''mse'' 0 2
       ''traditional'' ''cumulative'' 0 1 False = Inr res"
    by (simp add: sequence_cross_validate_def)
  have "map_sum id (\<lambda>res. map sf_score (sq_folds res))
          (sequence_cross_validate counting [10, 20, 30, 40] [1, 2, 3, 4] 0 ''mse'' 0 2
             ''traditional'' ''cumulative'' 0 1 False) = Inr [0, 1]"
    by code_simp
  with run have scores: "map sf_score (sq_folds res) = [0, 1]" by simp
  from seq_cv_scores_against_full_labels[OF run] scores
  have "sq_value res = Finite (1 / 2)" by (simp add: np_mean_def)
  with run show ?thesis by simp
qed

text \<open>
  C4. For ten rows with \<open>n_folds = 5\<close>, \<open>strategy = 'traditional'\<close>,
  \<open>window_type = 'cumulative'\<close>, \<open>min_window = 0\<close> and \<open>forecast_range = 1\<close> the fold
  size is 2 and five folds are run; fold 0 trains on rows \<open>[0, 1)\<close> and evaluates on row
  \<open>[1, 2)\<close>; fold 4 trains on rows \<open>[0, 9)\<close> and evaluates on row \<open>[9, 10)\<close>, since its
  \<open>fold_end\<close> is \<open>5 * 2 + 0 = 10\<close>.
\<close>

theorem traditional_ten_rows_five_folds:
  assumes "length X = 10"
  shows "\<exists>res. sequence_cross_validate env X y model metric transforms 5 ''traditional''
                  ''cumulative'' 0 1 plot = Inr res
          \<and> sq_fold_size res = 2 \<and> length (sq_folds res) = 5
          \<and> fold_start (sq_folds res ! 0) = 0
          \<and> fold_train_end (sq_folds res ! 0) = 1
          \<and> fold_end (sq_folds res ! 0) = 2
          \<and> sf_X_train (sq_folds res ! 0) = take 1 X
          \<and> sf_X_eval (sq_folds res ! 0) = take 1 (drop 1 X)
          \<and> fold_start (sq_folds res ! 4) = 0
          \<and> fold_train_end (sq_folds res ! 4) = 9
          \<and> fold_end (sq_folds res ! 4) = 10
          \<and> sf_X_train (sq_folds res ! 4) = take 9 X
          \<and> sf_X_eval (sq_folds res ! 4) = take 1 (drop 9 X)"
proof -
  let ?s0 = "\<lparr> ss_transforms = transforms, ss_model = model, ss_scores = [], ss_folds = [] \<rparr>"
  let ?res = "seq_run env X y metric ''cumulative'' 0 1 plot ?s0 5 2"
  have run: "sequence_cross_validate env X y model metric transforms 5 ''traditional''
               ''cumulative'' 0 1 plot = Inr ?res"
    using assms by (simp add: traditional_run)
  have len: "length (sq_folds ?res) = 5"
    by (simp add: seq_run_length)
  obtain t0 m0 where f0: "sq_folds ?res ! 0
      = seq_body env X y metric ''cumulative'' 2 0 1 plot t0 m0 0"
    using seq_run_nth[of 0 5 ?s0 env X y metric "''cumulative''" 0 1 plot 2] by simp
  obtain t4 m4 where f4: "sq_folds ?res ! 4
      = seq_body env X y metric ''cumulative'' 2 0 1 plot t4 m4 4"
    using seq_run_nth[of 4 5 ?s0 env X y metric "''cumulative''" 0 1 plot 2] by simp
  have a: "fold_start (sq_folds ?res ! 0) = 0 \<and> fold_train_end (sq_folds ?res ! 0) = 1
         \<and> fold_end (sq_folds ?res ! 0) = 2"
    by (simp add: f0 seq_body_fields)
  have b: "sf_X_train (sq_folds ?res ! 0) = take 1 X \<and> sf_X_eval (sq_folds ?res ! 0) = take 1 (drop 1 X)"
    using assms by (simp add: f0 seq_body_splits py_slice_in_range)
  have c: "fold_start (sq_folds ?res ! 4) = 0 \<and> fold_train_end (sq_folds ?res ! 4) = 9
         \<and> fold_end (sq_folds ?res ! 4) = 10"
    by (simp add: f4 seq_body_fields)
  have d: "sf_X_train (sq_folds ?res ! 4) = take 9 X \<and> sf_X_eval (sq_folds ?res ! 4) = take 1 (drop 9 X)"
    using assms by (simp add: f4 seq_body_splits py_slice_in_range)
  have e: "sq_fold_size ?res = 2" by (simp add: seq_run_sizes)
  from run len a b c d e show ?thesis by blast
qed

theorem traditional_ten_rows_five_folds_witness:
  "length [0, 1, 2, 3, 4, 5, 6, 7, 8, 9 :: int] = 10
   \<and> map_sum id (\<lambda>res. (sf_X_train (sq_folds res ! 4), sf_X_eval (sq_folds res ! 4)))
       (sequence_cross_validate counting [0, 1, 2, 3, 4, 5, 6, 7, 8, 9] [0, 0, 0, 0, 0, 1, 1, 1, 1, 1]
          0 ''mse'' 0 5 ''traditional'' ''cumulative'' 0 1 False)
     = Inr ([0, 1, 2, 3, 4, 5, 6, 7, 8], [9])"
proof -
  have len: "length [0, 1, 2, 3, 4, 5, 6, 7, 8, 9 :: int] = 10" by simp
  from traditional_ten_rows_five_folds[OF len, of counting "[0, 0, 0, 0, 0, 1, 1, 1, 1, 1]" 0 "''mse''" 0 False]
  show ?thesis by auto
qed

text \<open>Fold 4 does not train on rows \<open>[0, 7)\<close> and evaluate on row \<open>[8, 9)\<close>.\<close>

theorem traditional_fold_four_counterexample:
  "map_sum id (\<lambda>res. (sf_X_train (sq_folds res ! 4), sf_X_eval (sq_folds res ! 4)))
     (sequence_cross_validate counting [0, 1, 2, 3, 4, 5, 6, 7, 8, 9] [0, 0, 0, 0, 0, 1, 1, 1, 1, 1]
        0 ''mse'' 0 5 ''traditional'' ''cumulative'' 0 1 False)
   \<noteq> Inr ([0, 1, 2, 3, 4, 5, 6], [8])"
  by code_simp

text \<open>
  C5. With \<open>strategy = 'walk-forward'\<close>, for every dataset of length \<open>L\<close> and
  every \<open>min_window\<close> and \<open>forecast_range\<close> with \<open>0 \<le> forecast_range \<le> min_window + 1\<close>
  and \<open>min_window + forecast_range < L\<close>, the run executes exactly
  \<open>L - min_window - forecast_range\<close> folds, and every fold's evaluation split
  \<open>X[fold_train_end:fold_end]\<close> has exactly \<open>forecast_range\<close> rows.
\<close>

theorem walk_forward_fold_count_and_window:
  assumes "0 \<le> forecast_range" and "forecast_range \<le> min_window + 1"
      and "min_window + forecast_range < int (length X)"
  shows "\<exists>res. sequence_cross_validate env X y model metric transforms n_folds ''walk-forward''
                  window_type min_window forecast_range plot = Inr res
          \<and> sq_n_folds res = int (length X) - min_window - forecast_range
          \<and> int (length (sq_folds res)) = int (length X) - min_window - forecast_range
          \<and> (\<forall>r \<in> set (sq_folds res).
                sf_X_eval r = py_slice X (fold_train_end r) (fold_end r)
              \<and> int (length (sf_X_eval r)) = forecast_range)"
proof -
  let ?s0 = "\<lparr> ss_transforms = transforms, ss_model = model, ss_scores = [], ss_folds = [] \<rparr>"
  let ?n = "int (length X) - min_window - forecast_range"
  let ?res = "seq_run env X y metric window_type min_window forecast_range plot ?s0 ?n 1"
  have run: "sequence_cross_validate env X y model metric transforms n_folds ''walk-forward''
               window_type min_window forecast_range plot = Inr ?res"
    by (rule walk_forward_run)
  have n: "sq_n_folds ?res = ?n" by (simp add: seq_run_sizes)
  have len: "int (length (sq_folds ?res)) = ?n"
    using assms by (simp add: seq_run_length)
  have folds: "\<forall>r \<in> set (sq_folds ?res).
                sf_X_eval r = py_slice X (fold_train_end r) (fold_end r)
              \<and> int (length (sf_X_eval r)) = forecast_range"
  proof
    fix r assume "r \<in> set (sq_folds ?res)"
    then obtain t m i where i: "i < nat ?n"
      and r: "r = seq_body env X y metric window_type 1 min_window forecast_range plot t m (int i)"
      using seq_run_member[of r env X y metric window_type min_window forecast_range plot ?s0 ?n 1]
      by auto
    have bounds: "0 \<le> int i + 1 + min_window - forecast_range"
                 "int i + 1 + min_window - forecast_range \<le> int i + 1 + min_window"
                 "int i + 1 + min_window \<le> int (length X)"
      using assms i by linarith+
    have "int (length (py_slice X (int i + 1 + min_window - forecast_range) (int i + 1 + min_window)))
          = forecast_range"
      using length_py_slice_in_range[OF bounds] assms(1) by simp
    then show "sf_X_eval r = py_slice X (fold_train_end r) (fold_end r)
              \<and> int (length (sf_X_eval r)) = forecast_range"
      by (simp add: r seq_body_splits seq_body_fields)
  qed
  from run n len folds show ?thesis by blast
qed

theorem walk_forward_fold_count_and_window_witness:
  "(0::int) \<le> 1 \<and> (1::int) \<le> 0 + 1 \<and> (0::int) + 1 < int (length [10, 20, 30, 40 :: int])
   \<and> map_sum id (\<lambda>res. (int (length (sq_folds res)), map sf_X_eval (sq_folds res)))
       (sequence_cross_validate counting [10, 20, 30, 40] [1, 2, 3, 4] 0 ''mse'' 0 7
          ''walk-forward'' ''cumulative'' 0 1 False)
     = Inr (3, [ [10], [20], [30] ])"
proof -
  have h: "(0::int) \<le> 1" "(1::int) \<le> 0 + 1" "(0::int) + 1 < int (length [10, 20, 30, 40 :: int])"
    by simp_all
  obtain res where run:
      "sequence_cross_validate counting [10, 20, 30, 40] [1, 2, 3, 4] 0 ''mse'' 0 7
         ''walk-forward'' ''cumulative'' 0 1 False = Inr res"
    and len: "int (length (sq_folds res)) = int (length [10, 20, 30, 40 :: int]) - 0 - 1"
    using walk_forward_fold_count_and_window[OF h, of counting "[1, 2, 3, 4]" 0 "''mse''" 0 7
            "''cumulative''" False]
    by blast
  have "map_sum id (\<lambda>res. map sf_X_eval (sq_folds res))
          (sequence_cross_validate counting [10, 20, 30, 40] [1, 2, 3, 4] 0 ''mse'' 0 7
             ''walk-forward'' ''cumulative'' 0 1 False) = Inr [ [10], [20], [30] ]"
    by code_simp
  then have evals: "map sf_X_eval (sq_folds res) = [ [10], [20], [30] ]"
    unfolding run by (simp only: map_sum.simps sum.inject)
  from len have "int (length (sq_folds res)) = 3" by simp
  then show ?thesis
    unfolding run by (simp add: evals)
qed

text \<open>
  With five rows, \<open>min_window = 0\<close> and \<open>forecast_range = 2\<close> the first fold has
  \<open>fold_train_end = -1\<close>, and its evaluation split \<open>X[-1:1]\<close> is empty.
\<close>

theorem walk_forward_empty_window_counterexample:
  "map_sum id (\<lambda>res. map (\<lambda>r. (fold_train_end r, fold_end r, sf_X_eval r)) (sq_folds res))
     (sequence_cross_validate counting [10, 20, 30, 40, 50] [1, 2, 3, 4, 5] 0 ''mse'' 0 7
        ''walk-forward'' ''cumulative'' 0 2 False)
   = Inr [(- 1, 1, []), (0, 2, [10, 20]), (1, 3, [20, 30])]"
  by code_simp

text \<open>
  C6. In \<open>sequence_cross_validate\<close>, when \<open>window_type\<close> is not \<open>'fixed'\<close> (so
  for \<open>'cumulative'\<close>) every fold's training split starts at index 0; when
  \<open>window_type = 'fixed'\<close> fold \<open>i\<close> starts at \<open>i * fold_size\<close>, which is strictly increasing
  in \<open>i\<close> when the fold size is at least 1: for \<open>strategy = 'walk-forward'\<close>, and otherwise
  when \<open>n_folds\<close> does not exceed the number of rows.
\<close>

theorem training_window_start:
  assumes "sequence_cross_validate env X y model metric transforms n_folds strategy window_type
             min_window forecast_range plot = Inr res"
  shows "(window_type \<noteq> ''fixed'' \<longrightarrow> (\<forall>r \<in> set (sq_folds res). fold_start r = 0))
       \<and> (window_type = ''fixed'' \<longrightarrow>
            (\<forall>i < length (sq_folds res). fold_start (sq_folds res ! i) = int i * sq_fold_size res))
       \<and> (window_type = ''fixed'' \<and> (strategy = ''walk-forward'' \<or> n_folds \<le> int (length X)) \<longrightarrow>
            (\<forall>i j. i < j \<and> j < length (sq_folds res) \<longrightarrow>
                   fold_start (sq_folds res ! i) < fold_start (sq_folds res ! j)))"
proof -
  let ?s0 = "\<lparr> ss_transforms = transforms, ss_model = model, ss_scores = [], ss_folds = [] \<rparr>"
  from seq_cv_run[OF assms] obtain n fs where
    res: "res = seq_run env X y metric window_type min_window forecast_range plot ?s0 n fs"
    and wf: "strategy = ''walk-forward'' \<longrightarrow> n = int (length X) - min_window - forecast_range \<and> fs = 1"
    and tr: "strategy \<noteq> ''walk-forward'' \<longrightarrow> n = n_folds \<and> fs = int (length X) div n_folds \<and> n_folds \<noteq> 0"
    by blast
  have len: "length (sq_folds res) = nat n"
    unfolding res by (simp add: seq_run_length)
  have size: "sq_fold_size res = fs"
    by (simp add: res seq_run_sizes)
  have start: "fold_start (sq_folds res ! i) = (if window_type = ''fixed'' then int i * fs else 0)"
    if "i < nat n" for i
    unfolding res using that by (simp add: seq_run_fold_start)
  have cumulative: "window_type \<noteq> ''fixed'' \<longrightarrow> (\<forall>r \<in> set (sq_folds res). fold_start r = 0)"
    using start len by (auto simp: in_set_conv_nth)
  have fixed: "window_type = ''fixed'' \<longrightarrow>
            (\<forall>i < length (sq_folds res). fold_start (sq_folds res ! i) = int i * sq_fold_size res)"
    using start len size by simp
  have increasing: "window_type = ''fixed'' \<and> (strategy = ''walk-forward'' \<or> n_folds \<le> int (length X)) \<longrightarrow>
            (\<forall>i j. i < j \<and> j < length (sq_folds res) \<longrightarrow>
                   fold_start (sq_folds res ! i) < fold_start (sq_folds res ! j))"
  proof (intro impI allI)
    fix i j
    assume a: "window_type = ''fixed'' \<and> (strategy = ''walk-forward'' \<or> n_folds \<le> int (length X))"
       and b: "i < j \<and> j < length (sq_folds res)"
    from b len have ij: "i < nat n" "j < nat n" by simp_all
    then have npos: "0 < n" by simp
    have fs: "1 \<le> fs"
    proof (cases "strategy = ''walk-forward''")
      case True
      then show ?thesis using wf by simp
    next
      case False
      with tr a npos have "fs = int (length X) div n_folds" "0 < n_folds" "n_folds \<le> int (length X)"
        by simp_all
      then show ?thesis
        by (simp add: pos_imp_zdiv_pos_iff int_one_le_iff_zero_less)
    qed
    have "fold_start (sq_folds res ! i) = int i * fs" "fold_start (sq_folds res ! j) = int j * fs"
      using a ij by (simp_all add: start)
    moreover have "int i * fs < int j * fs"
      using b fs by (simp add: mult_strict_right_mono)
    ultimately show "fold_start (sq_folds res ! i) < fold_start (sq_folds res ! j)" by simp
  qed
  from cumulative fixed increasing show ?thesis by blast
qed

theorem training_window_start_witness:
  "map_sum id (\<lambda>res. fold_start (sq_folds res ! 0) < fold_start (sq_folds res ! 1)
                     \<and> fold_start (sq_folds res ! 1) < fold_start (sq_folds res ! 2))
     (sequence_cross_validate counting [10, 20, 30, 40, 50, 60] [1, 2, 3, 4, 5, 6] 0 ''mse'' 0 3
        ''traditional'' ''fixed'' 0 1 False)
   = Inr True"
proof -
  obtain res where run:
    "sequence_cross_validate counting [10, 20, 30, 40, 50, 60] [1, 2, 3, 4, 5, 6] 0 ''mse'' 0 3
       ''traditional'' ''fixed'' 0 1 False = Inr res"
    by (simp add: sequence_cross_validate_def)
  have "map_sum id (\<lambda>res. length (sq_folds res))
          (sequence_cross_validate counting [10, 20, 30, 40, 50, 60] [1, 2, 3, 4, 5, 6] 0 ''mse'' 0 3
             ''traditional'' ''fixed'' 0 1 False) = Inr 3"
    by code_simp
  then have len: "length (sq_folds res) = 3"
    unfolding run by (simp only: map_sum.simps sum.inject)
  from training_window_start[OF run]
  have "''fixed'' = ''fixed'' \<and> (''traditional'' = ''walk-forward''
            \<or> 3 \<le> int (length [10, 20, 30, 40, 50, 60 :: int])) \<longrightarrow>
          (\<forall>i j. i < j \<and> j < length (sq_folds res) \<longrightarrow>
               fold_start (sq_folds res ! i) < fold_start (sq_folds res ! j))"
    by blast
  then have "\<forall>i j. i < j \<and> j < length (sq_folds res) \<longrightarrow>
               fold_start (sq_folds res ! i) < fold_start (sq_folds res ! j)"
    by simp
  then have "fold_start (sq_folds res ! 0) < fold_start (sq_folds res ! 1)"
        and "fold_start (sq_folds res ! 1) < fold_start (sq_folds res ! 2)"
    using len by simp_all
  then show ?thesis
    unfolding run by simp
qed

text \<open>With three rows and \<open>n_folds = 5\<close> the fold size is \<open>3 div 5 = 0\<close>, and every fold
  of a \<open>'fixed'\<close> window starts at index 0.\<close>

theorem training_window_start_counterexample:
  "map_sum id (\<lambda>res. map fold_start (sq_folds res))
     (sequence_cross_validate counting [10, 20, 30] [1, 2, 3] 0 ''mse'' 0 5
        ''traditional'' ''fixed'' 0 1 False)
   = Inr [0, 0, 0, 0, 0]"
  by code_simp

text \<open>
  C10. With \<open>strategy = 'walk-forward'\<close>, every fold \<open>i\<close> has
  \<open>fold_end = (i + 1) + min_window \<le> len(X) - forecast_range\<close>; and when \<open>min_window \<ge> -1\<close>
  (so for every non-negative \<open>min_window\<close>) every row of a fold's evaluation split
  \<open>X[fold_train_end:fold_end]\<close> has an index below \<open>len(X) - forecast_range\<close>: the last
  \<open>forecast_range\<close> rows are in no evaluation split.
\<close>

theorem walk_forward_evaluation_rows:
  assumes "sequence_cross_validate env X y model metric transforms n_folds ''walk-forward''
             window_type min_window forecast_range plot = Inr res"
  shows "\<forall>r \<in> set (sq_folds res).
            fold_end r = (sf_i r + 1) + min_window
          \<and> fold_end r \<le> int (length X) - forecast_range
          \<and> sf_X_eval r = py_slice X (fold_train_end r) (fold_end r)
          \<and> (- 1 \<le> min_window \<longrightarrow>
               (\<forall>k \<in> set (slice_indices (length X) (fold_train_end r) (fold_end r)).
                   int k < int (length X) - forecast_range))"
proof
  let ?s0 = "\<lparr> ss_transforms = transforms, ss_model = model, ss_scores = [], ss_folds = [] \<rparr>"
  let ?n = "int (length X) - min_window - forecast_range"
  fix r assume mem: "r \<in> set (sq_folds res)"
  from assms have res: "res = seq_run env X y metric window_type min_window forecast_range plot ?s0 ?n 1"
    by (simp add: walk_forward_run)
  from mem obtain t m i where i: "i < nat ?n"
    and r: "r = seq_body env X y metric window_type 1 min_window forecast_range plot t m (int i)"
    unfolding res
    using seq_run_member[of r env X y metric window_type min_window forecast_range plot ?s0 ?n 1]
    by auto
  have e: "fold_end r = int i + 1 + min_window" "sf_i r = int i"
          "fold_train_end r = int i + 1 + min_window - forecast_range"
    by (simp_all add: r seq_body_fields)
  have bound: "fold_end r \<le> int (length X) - forecast_range"
    using i e by linarith
  have rows: "\<forall>k \<in> set (slice_indices (length X) (fold_train_end r) (fold_end r)).
                   int k < int (length X) - forecast_range" if "- 1 \<le> min_window"
  proof
    fix k assume k: "k \<in> set (slice_indices (length X) (fold_train_end r) (fold_end r))"
    from that e have "0 \<le> fold_end r" by simp
    from slice_indices_below[OF this k] bound show "int k < int (length X) - forecast_range"
      by linarith
  qed
  show "fold_end r = (sf_i r + 1) + min_window
          \<and> fold_end r \<le> int (length X) - forecast_range
          \<and> sf_X_eval r = py_slice X (fold_train_end r) (fold_end r)
          \<and> (- 1 \<le> min_window \<longrightarrow>
               (\<forall>k \<in> set (slice_indices (length X) (fold_train_end r) (fold_end r)).
                   int k < int (length X) - forecast_range))"
    using e bound rows by (simp add: r seq_body_splits seq_body_fields)
qed

theorem walk_forward_evaluation_rows_witness:
  "map_sum id
     (\<lambda>res. list_all (\<lambda>r. fold_end r \<le> 3
                    \<and> list_all (\<lambda>k. int k < 3) (slice_indices 4 (fold_train_end r) (fold_end r)))
             (sq_folds res))
     (sequence_cross_validate counting [10, 20, 30, 40] [1, 2, 3, 4] 0 ''mse'' 0 7
        ''walk-forward'' ''cumulative'' 0 1 False)
   = Inr True"
proof -
  obtain res where run:
    "sequence_cross_validate counting [10, 20, 30, 40] [1, 2, 3, 4] 0 ''mse'' 0 7
       ''walk-forward'' ''cumulative'' 0 1 False = Inr res"
    by (simp add: sequence_cross_validate_def)
  have len: "length [10, 20, 30, 40 :: int] = 4" by simp
  note rows = walk_forward_evaluation_rows[OF run, unfolded len]
  have "\<forall>r \<in> set (sq_folds res). fold_end r \<le> 3
          \<and> (\<forall>k \<in> set (slice_indices 4 (fold_train_end r) (fold_end r)). int k < 3)"
  proof
    fix r assume "r \<in> set (sq_folds res)"
    with rows have "fold_end r \<le> int 4 - 1"
      and "- 1 \<le> (0::int) \<longrightarrow>
            (\<forall>k \<in> set (slice_indices 4 (fold_train_end r) (fold_end r)). int k < int 4 - 1)"
      by blast+
    then show "fold_end r \<le> 3
          \<and> (\<forall>k \<in> set (slice_indices 4 (fold_train_end r) (fold_end r)). int k < 3)"
      by simp
  qed
  then show ?thesis
    unfolding run by (simp add: list_all_iff)
qed

text \<open>
  With three rows, \<open>min_window = -2\<close> and \<open>forecast_range = 2\<close> the first fold has
  \<open>fold_end = -1\<close>, a bound that counts from the end: its evaluation split \<open>X[-3:-1]\<close>
  is rows 0 and 1, and row 1 is one of the last two rows.
\<close>

theorem walk_forward_negative_window_counterexample:
  "map_sum id (\<lambda>res. map (\<lambda>r. (fold_train_end r, fold_end r, sf_X_eval r)) (sq_folds res))
     (sequence_cross_validate counting [10, 20, 30] [1, 2, 3] 0 ''mse'' 0 7
        ''walk-forward'' ''cumulative'' (- 2) 2 False)
   = Inr [(- 3, - 1, [10, 20]), (- 2, 0, []), (- 1, 1, [])]"
  by code_simp

text \<open>
  C2. In \<open>cross_validate\<close>, after the loop over all folds \<open>KFold\<close> returned, the
  returned value is the result of one call to the scorer on the concatenation of all
  folds' true evaluation labels and the concatenation of all folds' evaluation
  predictions. The only other scorer calls of the run are the per-fold training scores,
  which do not enter the result: it is not an average of per-fold scores.
\<close>

theorem cross_validate_single_aggregate_score:
  assumes "cross_validate env X y model metric transforms n_folds = Inr res"
  shows "cross_validation_score res
           = score env (concat (map cf_y_eval (cv_folds res)))
               (concat (map cf_eval_pred (cv_folds res))) metric
       \<and> filter is_score (cv_calls res)
           = map (\<lambda>r. Score (cf_y_train r) (cf_train_pred r) metric) (cv_folds res)
             @ [Score (concat (map cf_y_eval (cv_folds res)))
                  (concat (map cf_eval_pred (cv_folds res))) metric]
       \<and> (\<exists>folds. KFold env (length y) n_folds = Inr folds
             \<and> length (cv_folds res) = length folds
             \<and> (\<forall>i < length folds.
                   cf_X_eval (cv_folds res ! i) = map (\<lambda>k. X ! k) (snd (folds ! i))
                 \<and> cf_y_eval (cv_folds res ! i) = map (\<lambda>k. y ! k) (snd (folds ! i))
                 \<and> cf_eval_pred (cv_folds res ! i)
                     = model_predict env (cf_model (cv_folds res ! i))
                         (apply_transforms env (cf_X_eval (cv_folds res ! i))
                            (cf_transforms (cv_folds res ! i)))))"
proof -
  from assms obtain folds where
    kfold: "KFold env (length y) n_folds = Inr folds"
    and run: "cross_validate_folds env X y model metric transforms folds = Inr res"
    by (auto simp: cross_validate_def split: sum.splits)
  note facts = cross_validate_folds_Inr[OF run]
  from facts have len: "length (cv_folds res) = length folds" by blast
  from facts have score_eq: "cross_validation_score res
           = score env (concat (map cf_y_eval (cv_folds res)))
               (concat (map cf_eval_pred (cv_folds res))) metric" by blast
  from facts have final: "cv_final_call res
           = Score (concat (map cf_y_eval (cv_folds res)))
               (concat (map cf_eval_pred (cv_folds res))) metric" by blast
  from facts have nth: "\<forall>i < length folds.
             cv_body env X y metric
               (if i = 0 then transforms else cf_transforms (cv_folds res ! (i - 1)))
               (if i = 0 then model else cf_model (cv_folds res ! (i - 1)))
               (folds ! i) = Inr (cv_folds res ! i)" by blast
  have "\<forall>r \<in> set (cv_folds res).
          filter is_score (cf_calls r) = [Score (cf_y_train r) (cf_train_pred r) metric]"
  proof
    fix r assume "r \<in> set (cv_folds res)"
    from cv_folds_member[OF run this] obtain t m split where
      b: "cv_body env X y metric t m split = Inr r" by blast
    show "filter is_score (cf_calls r) = [Score (cf_y_train r) (cf_train_pred r) metric]"
      by (rule cv_fold_calls_filters(3)[OF b])
  qed
  then have "filter is_score (concat (map cf_calls (cv_folds res)))
             = concat (map (\<lambda>r. [Score (cf_y_train r) (cf_train_pred r) metric]) (cv_folds res))"
    by (rule concat_filter_calls)
  then have calls: "filter is_score (cv_calls res)
           = map (\<lambda>r. Score (cf_y_train r) (cf_train_pred r) metric) (cv_folds res)
             @ [Score (concat (map cf_y_eval (cv_folds res)))
                  (concat (map cf_eval_pred (cv_folds res))) metric]"
    by (simp add: cv_calls_def final concat_map_singleton)
  have per_fold: "\<forall>i < length folds.
                   cf_X_eval (cv_folds res ! i) = map (\<lambda>k. X ! k) (snd (folds ! i))
                 \<and> cf_y_eval (cv_folds res ! i) = map (\<lambda>k. y ! k) (snd (folds ! i))
                 \<and> cf_eval_pred (cv_folds res ! i)
                     = model_predict env (cf_model (cv_folds res ! i))
                         (apply_transforms env (cf_X_eval (cv_folds res ! i))
                            (cf_transforms (cv_folds res ! i)))"
  proof (intro allI impI)
    fix i assume "i < length folds"
    with nth obtain t m where b: "cv_body env X y metric t m (folds ! i) = Inr (cv_folds res ! i)"
      by blast
    show "cf_X_eval (cv_folds res ! i) = map (\<lambda>k. X ! k) (snd (folds ! i))
                 \<and> cf_y_eval (cv_folds res ! i) = map (\<lambda>k. y ! k) (snd (folds ! i))
                 \<and> cf_eval_pred (cv_folds res ! i)
                     = model_predict env (cf_model (cv_folds res ! i))
                         (apply_transforms env (cf_X_eval (cv_folds res ! i))
                            (cf_transforms (cv_folds res ! i)))"
      using cv_body_Inr(5,6,9,13)[OF b] by simp
  qed
  from score_eq calls kfold len per_fold show ?thesis by blast
qed



theorem cross_validate_single_aggregate_score_witness:
  "map_sum id cross_validation_score
     (cross_validate counting [10, 20, 30, 40] [1, 2, 3, 4] 0 ''mse'' 0 2) = Inr 6"
proof -
  have "map_sum id (\<lambda>res. (concat (map cf_y_eval (cv_folds res)),
                            concat (map cf_eval_pred (cv_folds res))))
          (cross_validate counting [10, 20, 30, 40] [1, 2, 3, 4] 0 ''mse'' 0 2)
        = Inr ([1, 2, 3, 4], [1, 1, 2, 2])"
    by code_simp
  then obtain res where
    run: "cross_validate counting [10, 20, 30, 40] [1, 2, 3, 4] 0 ''mse'' 0 2 = Inr res"
    and true: "concat (map cf_y_eval (cv_folds res)) = [1, 2, 3, 4]"
    and pred: "concat (map cf_eval_pred (cv_folds res)) = [1, 1, 2, 2]"
    by (cases "cross_validate counting [10, 20, 30, 40] [1, 2, 3, 4] 0 ''mse'' 0 2") auto
  from cross_validate_single_aggregate_score[OF run]
  have "cross_validation_score res = score counting [1, 2, 3, 4] [1, 1, 2, 2] ''mse''"
    unfolding true pred by blast
  then have "cross_validation_score res = 6"
    by (simp add: counting_def squared_error_def)
  then show ?thesis
    unfolding run by simp
qed

text \<open>On the same run the mean of the per-fold evaluation scores is 3, not the returned 6.\<close>

lemma cross_validate_differs_from_fold_mean:
  "map_sum id
     (\<lambda>res. (cross_validation_score res,
             np_mean (map (\<lambda>r. score counting (cf_y_eval r) (cf_eval_pred r) ''mse'') (cv_folds res))))
     (cross_validate counting [10, 20, 30, 40] [1, 2, 3, 4] 0 ''mse'' 0 2)
   = Inr (6, Finite 3)"
  by code_simp

text \<open>
  C3. For a dataset of 100 rows and \<open>n_folds = 5\<close>, when \<open>KFold\<close> returns five
  folds of row numbers below 100 whose evaluation parts have 100 entries in total,
  \<open>cross_validate\<close> returns, having invoked the model's \<open>fit\<close> exactly 5 times and its
  \<open>predict\<close> exactly 10 times (per fold once on the training split, for the training
  score, and once on the evaluation split). The returned scalar is the score of exactly
  100 aggregated true labels against the aggregated evaluation predictions, of which
  there are exactly 100 when \<open>predict\<close> returns one prediction per row and
  \<open>apply_transforms\<close> keeps the number of rows.
\<close>

theorem cross_validate_hundred_rows_five_folds:
  assumes "length X = 100" and "length y = 100"
      and "KFold env 100 5 = Inr folds" and "length folds = 5"
      and "list_all (fold_in_range X y) folds"
      and "sum_list (map (\<lambda>split. length (snd split)) folds) = 100"
  shows "\<exists>res. cross_validate env X y model metric transforms 5 = Inr res
          \<and> length (filter is_fit (cv_calls res)) = 5
          \<and> length (filter is_predict (cv_calls res)) = 10
          \<and> cross_validation_score res
              = score env (concat (map cf_y_eval (cv_folds res)))
                  (concat (map cf_eval_pred (cv_folds res))) metric
          \<and> length (concat (map cf_y_eval (cv_folds res))) = 100
          \<and> ((\<forall>m Z. length (model_predict env m Z) = length Z)
               \<and> (\<forall>Z t. length (apply_transforms env Z t) = length Z)
              \<longrightarrow> length (concat (map cf_eval_pred (cv_folds res))) = 100)"
proof -
  from assms(4) have "folds \<noteq> []" by auto
  from cross_validate_folds_in_range[OF assms(5) this,
         where env = env and model = model and metric = metric and transforms = transforms]
  obtain res where
    run: "cross_validate_folds env X y model metric transforms folds = Inr res" by blast
  have cv: "cross_validate env X y model metric transforms 5 = Inr res"
    using assms(2,3) run by (simp add: cross_validate_def)
  have fits: "length (filter is_fit (cv_calls res)) = 5"
    using cv_call_counts(1)[OF run] assms(4) by simp
  have predicts: "length (filter is_predict (cv_calls res)) = 10"
    using cv_call_counts(2)[OF run] assms(4) by simp
  have score_eq: "cross_validation_score res
              = score env (concat (map cf_y_eval (cv_folds res)))
                  (concat (map cf_eval_pred (cv_folds res))) metric"
    using cross_validate_folds_Inr[OF run] by blast
  have labels: "length (concat (map cf_y_eval (cv_folds res))) = 100"
    using cv_label_count[OF run] assms(6) by simp
  have preds: "(\<forall>m Z. length (model_predict env m Z) = length Z)
               \<and> (\<forall>Z t. length (apply_transforms env Z t) = length Z)
              \<longrightarrow> length (concat (map cf_eval_pred (cv_folds res))) = 100"
    using cv_prediction_count[OF run] labels by simp
  from cv fits predicts score_eq labels preds show ?thesis by blast
qed

theorem cross_validate_hundred_rows_five_folds_witness:
  "map_sum id (\<lambda>res. (length (filter is_fit (cv_calls res)),
                      length (filter is_predict (cv_calls res)),
                      length (concat (map cf_y_eval (cv_folds res)))))
     (cross_validate counting (map int [0..<100]) (map int [0..<100]) 0 ''mse'' 0 5)
   = Inr (5, 10, 100)"
proof -
  let ?folds = "projr (example_kfold 100 5)"
  have h1: "length (map int [0..<100]) = 100" by simp
  have h3: "KFold counting 100 5 = Inr ?folds"
    by (simp add: counting_def example_kfold_def)
  have h4: "length ?folds = 5" by code_simp
  have h5: "list_all (fold_in_range (map int [0..<100]) (map int [0..<100])) ?folds" by code_simp
  have h6: "sum_list (map (\<lambda>split. length (snd split)) ?folds) = 100" by code_simp
  from cross_validate_hundred_rows_five_folds[OF h1 h1 h3 h4 h5 h6, of 0 "''mse''" 0]
  obtain res where
    "cross_validate counting (map int [0..<100]) (map int [0..<100]) 0 ''mse'' 0 5 = Inr res"
    "length (filter is_fit (cv_calls res)) = 5"
    "length (filter is_predict (cv_calls res)) = 10"
    "length (concat (map cf_y_eval (cv_folds res))) = 100"
    by blast
  then show ?thesis by simp
qed

text \<open>On 100 rows with five folds \<open>predict\<close> is invoked 10 times, not 5.\<close>

theorem cross_validate_predict_calls_counterexample:
  "map_sum id (\<lambda>res. length (filter is_predict (cv_calls res)))
     (cross_validate counting (map int [0..<100]) (map int [0..<100]) 0 ''mse'' 0 5)
   = Inr 10"
  by code_simp

text \<open>
  C7. In both \<open>cross_validate\<close> and \<open>sequence_cross_validate\<close>, every fold
  begins by calling \<open>fit_transforms\<close> on that fold's training split (rows and labels)
  only, and then applies the fitted transforms to the training and to the evaluation
  split. The name \<open>transforms\<close> is rebound to the fitted result, so the call of the first
  fold receives the caller-supplied transform specification and the call of every later
  fold receives the previous fold's fitted result.
\<close>

theorem transforms_refit_on_training_split:
  assumes "cross_validate env X y model metric transforms n_folds = Inr res"
      and "sequence_cross_validate env X y model metric transforms n_folds strategy window_type
             min_window forecast_range plot = Inr res'"
  shows "(\<exists>folds. KFold env (length y) n_folds = Inr folds \<and> length (cv_folds res) = length folds
            \<and> (\<forall>i < length folds.
                  cf_X_train (cv_folds res ! i) = map (\<lambda>k. X ! k) (fst (folds ! i))
                \<and> cf_y_train (cv_folds res ! i) = map (\<lambda>k. y ! k) (fst (folds ! i))))
       \<and> (\<forall>i < length (cv_folds res).
            cf_transforms_in (cv_folds res ! i)
              = (if i = 0 then transforms else cf_transforms (cv_folds res ! (i - 1)))
          \<and> cf_transforms (cv_folds res ! i)
              = fit_transforms env (cf_X_train (cv_folds res ! i)) (cf_y_train (cv_folds res ! i))
                  (cf_transforms_in (cv_folds res ! i))
          \<and> filter is_fit_transforms (cf_calls (cv_folds res ! i))
              = [FitTransforms (cf_X_train (cv_folds res ! i)) (cf_y_train (cv_folds res ! i))
                   (cf_transforms_in (cv_folds res ! i))]
          \<and> take 3 (cf_calls (cv_folds res ! i))
              = [FitTransforms (cf_X_train (cv_folds res ! i)) (cf_y_train (cv_folds res ! i))
                   (cf_transforms_in (cv_folds res ! i)),
                 ApplyTransforms (cf_X_train (cv_folds res ! i)) (cf_transforms (cv_folds res ! i)),
                 ApplyTransforms (cf_X_eval (cv_folds res ! i)) (cf_transforms (cv_folds res ! i))])
       \<and> (\<forall>i < length (sq_folds res').
            sf_X_train (sq_folds res' ! i)
              = py_slice X (fold_start (sq_folds res' ! i)) (fold_train_end (sq_folds res' ! i))
          \<and> sf_y_train (sq_folds res' ! i)
              = py_slice y (fold_start (sq_folds res' ! i)) (fold_train_end (sq_folds res' ! i))
          \<and> sf_transforms_in (sq_folds res' ! i)
              = (if i = 0 then transforms else sf_transforms (sq_folds res' ! (i - 1)))
          \<and> sf_transforms (sq_folds res' ! i)
              = fit_transforms env (sf_X_train (sq_folds res' ! i)) (sf_y_train (sq_folds res' ! i))
                  (sf_transforms_in (sq_folds res' ! i))
          \<and> filter is_fit_transforms (sf_calls (sq_folds res' ! i))
              = [FitTransforms (sf_X_train (sq_folds res' ! i)) (sf_y_train (sq_folds res' ! i))
                   (sf_transforms_in (sq_folds res' ! i))]
          \<and> take 3 (sf_calls (sq_folds res' ! i))
              = [FitTransforms (sf_X_train (sq_folds res' ! i)) (sf_y_train (sq_folds res' ! i))
                   (sf_transforms_in (sq_folds res' ! i)),
                 ApplyTransforms (sf_X_train (sq_folds res' ! i)) (sf_transforms (sq_folds res' ! i)),
                 ApplyTransforms (sf_X_eval (sq_folds res' ! i)) (sf_transforms (sq_folds res' ! i))])"
proof -
  from assms(1) obtain folds where
    kfold: "KFold env (length y) n_folds = Inr folds"
    and run: "cross_validate_folds env X y model metric transforms folds = Inr res"
    by (auto simp: cross_validate_def split: sum.splits)
  from cross_validate_folds_Inr[OF run] have len: "length (cv_folds res) = length folds"
    and nth: "\<forall>i < length folds.
             cv_body env X y metric
               (if i = 0 then transforms else cf_transforms (cv_folds res ! (i - 1)))
               (if i = 0 then model else cf_model (cv_folds res ! (i - 1)))
               (folds ! i) = Inr (cv_folds res ! i)"
    by blast+
  have splits: "\<forall>i < length folds.
                  cf_X_train (cv_folds res ! i) = map (\<lambda>k. X ! k) (fst (folds ! i))
                \<and> cf_y_train (cv_folds res ! i) = map (\<lambda>k. y ! k) (fst (folds ! i))"
  proof (intro allI impI)
    fix i assume "i < length folds"
    with nth obtain t m where b: "cv_body env X y metric t m (folds ! i) = Inr (cv_folds res ! i)"
      by blast
    show "cf_X_train (cv_folds res ! i) = map (\<lambda>k. X ! k) (fst (folds ! i))
        \<and> cf_y_train (cv_folds res ! i) = map (\<lambda>k. y ! k) (fst (folds ! i))"
      using cv_body_Inr(3,4)[OF b] by (intro conjI)
  qed
  have part1: "\<exists>folds. KFold env (length y) n_folds = Inr folds \<and> length (cv_folds res) = length folds
            \<and> (\<forall>i < length folds.
                  cf_X_train (cv_folds res ! i) = map (\<lambda>k. X ! k) (fst (folds ! i))
                \<and> cf_y_train (cv_folds res ! i) = map (\<lambda>k. y ! k) (fst (folds ! i)))"
    using kfold len splits by (intro exI[of _ folds] conjI)
  have part2: "\<forall>i < length (cv_folds res).
            cf_transforms_in (cv_folds res ! i)
              = (if i = 0 then transforms else cf_transforms (cv_folds res ! (i - 1)))
          \<and> cf_transforms (cv_folds res ! i)
              = fit_transforms env (cf_X_train (cv_folds res ! i)) (cf_y_train (cv_folds res ! i))
                  (cf_transforms_in (cv_folds res ! i))
          \<and> filter is_fit_transforms (cf_calls (cv_folds res ! i))
              = [FitTransforms (cf_X_train (cv_folds res ! i)) (cf_y_train (cv_folds res ! i))
                   (cf_transforms_in (cv_folds res ! i))]
          \<and> take 3 (cf_calls (cv_folds res ! i))
              = [FitTransforms (cf_X_train (cv_folds res ! i)) (cf_y_train (cv_folds res ! i))
                   (cf_transforms_in (cv_folds res ! i)),
                 ApplyTransforms (cf_X_train (cv_folds res ! i)) (cf_transforms (cv_folds res ! i)),
                 ApplyTransforms (cf_X_eval (cv_folds res ! i)) (cf_transforms (cv_folds res ! i))]"
  proof (intro allI impI)
    fix i assume "i < length (cv_folds res)"
    then have i: "i < length folds" by (simp add: len)
    let ?t = "if i = 0 then transforms else cf_transforms (cv_folds res ! (i - 1))"
    from nth i obtain m where b: "cv_body env X y metric ?t m (folds ! i) = Inr (cv_folds res ! i)"
      by blast
    have f1: "cf_transforms_in (cv_folds res ! i) = ?t"
      by (rule cv_body_Inr(2)[OF b])
    note f2 = cv_body_Inr(7)[OF b]
    note f3 = cv_body_transform_calls(1)[OF b]
    note f4 = cv_body_transform_calls(2)[OF b]
    show "cf_transforms_in (cv_folds res ! i)
              = (if i = 0 then transforms else cf_transforms (cv_folds res ! (i - 1)))
          \<and> cf_transforms (cv_folds res ! i)
              = fit_transforms env (cf_X_train (cv_folds res ! i)) (cf_y_train (cv_folds res ! i))
                  (cf_transforms_in (cv_folds res ! i))
          \<and> filter is_fit_transforms (cf_calls (cv_folds res ! i))
              = [FitTransforms (cf_X_train (cv_folds res ! i)) (cf_y_train (cv_folds res ! i))
                   (cf_transforms_in (cv_folds res ! i))]
          \<and> take 3 (cf_calls (cv_folds res ! i))
              = [FitTransforms (cf_X_train (cv_folds res ! i)) (cf_y_train (cv_folds res ! i))
                   (cf_transforms_in (cv_folds res ! i)),
                 ApplyTransforms (cf_X_train (cv_folds res ! i)) (cf_transforms (cv_folds res ! i)),
                 ApplyTransforms (cf_X_eval (cv_folds res ! i)) (cf_transforms (cv_folds res ! i))]"
      unfolding f1 using f2 f3 f4 by (intro conjI refl)
  qed
  let ?s0 = "\<lparr> ss_transforms = transforms, ss_model = model, ss_scores = [], ss_folds = [] \<rparr>"
  from seq_cv_run[OF assms(2)] obtain n fs where
    res': "res' = seq_run env X y metric window_type min_window forecast_range plot ?s0 n fs"
    by blast
  have len': "length (sq_folds res') = nat n"
    unfolding res' by (simp add: seq_run_length)
  have part3: "\<forall>i < length (sq_folds res').
            sf_X_train (sq_folds res' ! i)
              = py_slice X (fold_start (sq_folds res' ! i)) (fold_train_end (sq_folds res' ! i))
          \<and> sf_y_train (sq_folds res' ! i)
              = py_slice y (fold_start (sq_folds res' ! i)) (fold_train_end (sq_folds res' ! i))
          \<and> sf_transforms_in (sq_folds res' ! i)
              = (if i = 0 then transforms else sf_transforms (sq_folds res' ! (i - 1)))
          \<and> sf_transforms (sq_folds res' ! i)
              = fit_transforms env (sf_X_train (sq_folds res' ! i)) (sf_y_train (sq_folds res' ! i))
                  (sf_transforms_in (sq_folds res' ! i))
          \<and> filter is_fit_transforms (sf_calls (sq_folds res' ! i))
              = [FitTransforms (sf_X_train (sq_folds res' ! i)) (sf_y_train (sq_folds res' ! i))
                   (sf_transforms_in (sq_folds res' ! i))]
          \<and> take 3 (sf_calls (sq_folds res' ! i))
              = [FitTransforms (sf_X_train (sq_folds res' ! i)) (sf_y_train (sq_folds res' ! i))
                   (sf_transforms_in (sq_folds res' ! i)),
                 ApplyTransforms (sf_X_train (sq_folds res' ! i)) (sf_transforms (sq_folds res' ! i)),
                 ApplyTransforms (sf_X_eval (sq_folds res' ! i)) (sf_transforms (sq_folds res' ! i))]"
  proof (intro allI impI)
    fix i assume "i < length (sq_folds res')"
    then have i: "i < nat n" by (simp add: len')
    let ?t = "if i = 0 then transforms else sf_transforms (sq_folds res' ! (i - 1))"
    let ?m = "if i = 0 then model else sf_model (sq_folds res' ! (i - 1))"
    have b: "sq_folds res' ! i
            = seq_body env X y metric window_type fs min_window forecast_range plot ?t ?m (int i)"
      unfolding res'
      using seq_run_nth[OF i, of ?s0 env X y metric window_type min_window forecast_range plot fs]
      by (simp cong: if_cong)
    have f1: "sf_transforms_in (sq_folds res' ! i) = ?t"
      by (rule seq_body_transform_calls(3)[OF b])
    note f2 = seq_body_transform_calls(4)[OF b]
    note f3 = seq_body_transform_calls(5)[OF b]
    note f4 = seq_body_transform_calls(6)[OF b]
    note f5 = seq_body_transform_calls(1)[OF b]
    note f6 = seq_body_transform_calls(2)[OF b]
    show "sf_X_train (sq_folds res' ! i)
              = py_slice X (fold_start (sq_folds res' ! i)) (fold_train_end (sq_folds res' ! i))
          \<and> sf_y_train (sq_folds res' ! i)
              = py_slice y (fold_start (sq_folds res' ! i)) (fold_train_end (sq_folds res' ! i))
          \<and> sf_transforms_in (sq_folds res' ! i)
              = (if i = 0 then transforms else sf_transforms (sq_folds res' ! (i - 1)))
          \<and> sf_transforms (sq_folds res' ! i)
              = fit_transforms env (sf_X_train (sq_folds res' ! i)) (sf_y_train (sq_folds res' ! i))
                  (sf_transforms_in (sq_folds res' ! i))
          \<and> filter is_fit_transforms (sf_calls (sq_folds res' ! i))
              = [FitTransforms (sf_X_train (sq_folds res' ! i)) (sf_y_train (sq_folds res' ! i))
                   (sf_transforms_in (sq_folds res' ! i))]
          \<and> take 3 (sf_calls (sq_folds res' ! i))
              = [FitTransforms (sf_X_train (sq_folds res' ! i)) (sf_y_train (sq_folds res' ! i))
                   (sf_transforms_in (sq_folds res' ! i)),
                 ApplyTransforms (sf_X_train (sq_folds res' ! i)) (sf_transforms (sq_folds res' ! i)),
                 ApplyTransforms (sf_X_eval (sq_folds res' ! i)) (sf_transforms (sq_folds res' ! i))]"
      unfolding f1 using f2 f3 f4 f5 f6 by (intro conjI refl)
  qed
  from part1 part2 part3 show ?thesis by (intro conjI)
qed

theorem transforms_refit_on_training_split_witness:
  "map_sum id (\<lambda>res. cf_transforms_in (cv_folds res ! 0) = 0
                     \<and> cf_transforms_in (cv_folds res ! 1) = cf_transforms (cv_folds res ! 0))
     (cross_validate counting [10, 20, 30, 40] [1, 2, 3, 4] 0 ''mse'' 0 2)
   = Inr True
   \<and> map_sum id (\<lambda>res. sf_transforms_in (sq_folds res ! 0) = 0
                       \<and> sf_transforms_in (sq_folds res ! 1) = sf_transforms (sq_folds res ! 0))
       (sequence_cross_validate counting [10, 20, 30, 40] [1, 2, 3, 4] 0 ''mse'' 0 2
          ''traditional'' ''cumulative'' 0 1 False)
     = Inr True"
proof -
  have "map_sum id (\<lambda>res. length (cv_folds res))
          (cross_validate counting [10, 20, 30, 40] [1, 2, 3, 4] 0 ''mse'' 0 2) = Inr 2"
    by code_simp
  then obtain res where
    run: "cross_validate counting [10, 20, 30, 40] [1, 2, 3, 4] 0 ''mse'' 0 2 = Inr res"
    and len: "length (cv_folds res) = 2"
    by (cases "cross_validate counting [10, 20, 30, 40] [1, 2, 3, 4] 0 ''mse'' 0 2") auto
  have "map_sum id (\<lambda>res. length (sq_folds res))
          (sequence_cross_validate counting [10, 20, 30, 40] [1, 2, 3, 4] 0 ''mse'' 0 2
             ''traditional'' ''cumulative'' 0 1 False) = Inr 2"
    by code_simp
  then obtain res' where
    run': "sequence_cross_validate counting [10, 20, 30, 40] [1, 2, 3, 4] 0 ''mse'' 0 2
             ''traditional'' ''cumulative'' 0 1 False = Inr res'"
    and len': "length (sq_folds res') = 2"
    by (cases "sequence_cross_validate counting [10, 20, 30, 40] [1, 2, 3, 4] 0 ''mse'' 0 2
                 ''traditional'' ''cumulative'' 0 1 False") auto
  note all = transforms_refit_on_training_split[OF run run']
  from all have cv: "\<forall>i < length (cv_folds res).
      cf_transforms_in (cv_folds res ! i) = (if i = 0 then 0 else cf_transforms (cv_folds res ! (i - 1)))"
    by blast
  from all have sq: "\<forall>i < length (sq_folds res').
      sf_transforms_in (sq_folds res' ! i) = (if i = 0 then 0 else sf_transforms (sq_folds res' ! (i - 1)))"
    by blast
  have "cf_transforms_in (cv_folds res ! 0) = 0"
       "cf_transforms_in (cv_folds res ! 1) = cf_transforms (cv_folds res ! 0)"
    using cv len by auto
  moreover have "sf_transforms_in (sq_folds res' ! 0) = 0"
       "sf_transforms_in (sq_folds res' ! 1) = sf_transforms (sq_folds res' ! 0)"
    using sq len' by auto
  ultimately show ?thesis
    unfolding run run' by simp
qed

text \<open>With a transform set that counts its fits, the second fold's \<open>fit_transforms\<close>
  call receives the count 1 of the first fold, not the caller's 0, in both routines.\<close>

theorem transforms_carried_counterexample:
  "map_sum id (\<lambda>res. filter is_fit_transforms (cv_calls res))
     (cross_validate counting [10, 20, 30, 40] [1, 2, 3, 4] 0 ''mse'' 0 2)
   = Inr [FitTransforms [30, 40] [3, 4] 0, FitTransforms [10, 20] [1, 2] 1]
   \<and> map_sum id (\<lambda>res. filter is_fit_transforms (seq_calls res))
       (sequence_cross_validate counting [10, 20, 30, 40] [1, 2, 3, 4] 0 ''mse'' 0 2
          ''traditional'' ''cumulative'' 0 1 False)
     = Inr [FitTransforms [10] [1] 0, FitTransforms [10, 20, 30] [1, 2, 3] 1]"
  by code_simp


text \<open>
  C8. The score returned by \<open>cross_validate\<close> is invariant under the order in
  which the folds are processed when the collaborators do not depend on that order:
  \<open>model.fit\<close> and \<open>fit_transforms\<close> fit from scratch (their result does not depend on the
  previous state of the model or transform set), \<open>predict\<close> returns one prediction per
  row and \<open>apply_transforms\<close> keeps the number of rows, and the metric depends only on
  the multiset of (true label, prediction) pairs. Then for every permutation of the fold
  list the run returns the same score, or raises the same error.
\<close>

theorem cross_validate_fold_order:
  assumes "mset folds' = mset folds"
      and "\<forall>m m' Z l. model_fit env m Z l = model_fit env m' Z l"
      and "\<forall>t t' Z l. fit_transforms env Z l t = fit_transforms env Z l t'"
      and "\<forall>m Z. length (model_predict env m Z) = length Z"
      and "\<forall>Z t. length (apply_transforms env Z t) = length Z"
      and "\<forall>yt yp yt' yp'. length yt = length yp \<and> length yt' = length yp'
              \<and> mset (zip yt yp) = mset (zip yt' yp')
             \<longrightarrow> score env yt yp metric = score env yt' yp' metric"
  shows "map_sum id cross_validation_score
           (cross_validate_folds env X y model metric transforms folds')
       = map_sum id cross_validation_score
           (cross_validate_folds env X y model metric transforms folds)"
proof -
  let ?E = "\<lambda>split :: nat list \<times> nat list. map (\<lambda>k. y ! k) (snd split)"
  let ?P = "fold_prediction env X y transforms model"
  have lens: "\<forall>split. length (?E split) = length (?P split)"
    using length_fold_prediction[OF assms(4,5)] by simp
  have set_eq: "set folds' = set folds"
    by (rule mset_eq_setD[OF assms(1)])
  then have range: "list_all (fold_in_range X y) folds' = list_all (fold_in_range X y) folds"
    by (simp add: list_all_iff)
  have empty: "(folds' = []) = (folds = [])"
    using set_eq by (metis set_empty)
  have a: "length (concat (map ?E folds)) = length (concat (map ?P folds))"
    by (rule length_concat_map_cong[OF lens])
  have b: "length (concat (map ?E folds')) = length (concat (map ?P folds'))"
    by (rule length_concat_map_cong[OF lens])
  have c: "mset (zip (concat (map ?E folds')) (concat (map ?P folds')))
           = mset (zip (concat (map ?E folds)) (concat (map ?P folds)))"
    unfolding zip_concat_map[OF lens] by (rule mset_concat_map_cong[OF assms(1)])
  have "score env (concat (map ?E folds')) (concat (map ?P folds')) metric
        = score env (concat (map ?E folds)) (concat (map ?P folds)) metric"
    using assms(6) a b c by blast
  then show ?thesis
    unfolding cross_validate_folds_refit[OF assms(2,3)] range empty by simp
qed

theorem cross_validate_fold_order_witness:
  "map_sum id cross_validation_score
     (cross_validate_folds refitting [10, 20, 30, 40] [1, 2, 3, 4] 0 ''mse'' 0
        [([2, 3], [0, 1]), ([0, 1], [2, 3])])
   = map_sum id cross_validation_score
       (cross_validate_folds refitting [10, 20, 30, 40] [1, 2, 3, 4] 0 ''mse'' 0
          [([0, 1], [2, 3]), ([2, 3], [0, 1])])
   \<and> map_sum id cross_validation_score
       (cross_validate_folds refitting [10, 20, 30, 40] [1, 2, 3, 4] 0 ''mse'' 0
          [([0, 1], [2, 3]), ([2, 3], [0, 1])])
     = Inr 62"
proof -
  have h1: "mset [([2, 3], [0, 1]), ([0, 1], [2, 3 :: nat])]
            = mset [([0, 1], [2, 3]), ([2, 3], [0, 1 :: nat])]"
    by simp
  have h2: "\<forall>m m' Z l. model_fit refitting m Z l = model_fit refitting m' Z l"
    by (simp add: refitting_def)
  have h3: "\<forall>t t' Z l. fit_transforms refitting Z l t = fit_transforms refitting Z l t'"
    by (simp add: refitting_def)
  have h4: "\<forall>m Z. length (model_predict refitting m Z) = length Z"
    by (simp add: refitting_def)
  have h5: "\<forall>Z t. length (apply_transforms refitting Z t) = length Z"
    by (simp add: refitting_def)
  have h6: "\<forall>yt yp yt' yp'. length yt = length yp \<and> length yt' = length yp'
              \<and> mset (zip yt yp) = mset (zip yt' yp')
             \<longrightarrow> score refitting yt yp ''mse'' = score refitting yt' yp' ''mse''"
  proof (intro allI impI)
    fix yt yp yt' yp' :: "int list"
    assume "length yt = length yp \<and> length yt' = length yp'
              \<and> mset (zip yt yp) = mset (zip yt' yp')"
    then have "mset (zip yt yp) = mset (zip yt' yp')" by blast
    from squared_error_pairs[OF this]
    show "score refitting yt yp ''mse'' = score refitting yt' yp' ''mse''"
      by (simp add: refitting_def)
  qed
  have v: "map_sum id cross_validation_score
       (cross_validate_folds refitting [10, 20, 30, 40] [1, 2, 3, 4] 0 ''mse'' 0
          [([0, 1], [2, 3]), ([2, 3], [0, 1])])
     = Inr 62"
    by code_simp
  from cross_validate_fold_order[OF h1 h2 h3 h4 h5 h6, of "[10, 20, 30, 40]" "[1, 2, 3, 4]" 0 0] v
  show ?thesis by (intro conjI)
qed

text \<open>With a model whose predictions depend on how often it was fit, and the sum of
  squared errors as the metric, processing two folds in the other order changes the
  returned score.\<close>

theorem cross_validate_fold_order_counterexample:
  "map_sum id cross_validation_score
     (cross_validate_folds counting [10, 20] [0, 1] 0 ''mse'' 0 [([1], [0]), ([0], [1])])
   = Inr 2
   \<and> map_sum id cross_validation_score
       (cross_validate_folds counting [10, 20] [0, 1] 0 ''mse'' 0 [([0], [1]), ([1], [0])])
     = Inr 4"
  by code_simp

end
